theory Spec2Isabelle
  imports Complex_Main
begin

section \<open>Numbers and vectors\<close>

text \<open>
  The simulator computes on JavaScript numbers.  In the force model, the integrators, the
  catch controllers and the atmosphere they are modelled as \<^typ>\<open>real\<close>: rounding, overflow to
  Infinity and NaN are outside the model there.  The PID controller is modelled on doubles,
  each operation rounded (sections on double-precision arithmetic and on the controller): its
  bounds are compared exactly, and rounding decides the comparison.  A division by zero,
  which in JavaScript yields Infinity or NaN, is written out where the source can reach one:
  the embedded function then returns \<open>None\<close>.

  \<open>THREE.Vector2\<close>, \<open>THREE.Vector3\<close> and \<open>THREE.Euler\<close> come from the three.js library.
  A vector is a record of its components; an Euler triple (always in the default order XYZ in
  this program) is a \<open>vec3\<close> as well.  In-place mutation of a vector becomes a new value.
\<close>

record vec2 =
  x2 :: real
  y2 :: real

record vec3 =
  vx :: real
  vy :: real
  vz :: real

definition V2 :: "real \<Rightarrow> real \<Rightarrow> vec2" where
  "V2 a b = \<lparr>x2 = a, y2 = b\<rparr>"

definition V3 :: "real \<Rightarrow> real \<Rightarrow> real \<Rightarrow> vec3" where
  "V3 a b c = \<lparr>vx = a, vy = b, vz = c\<rparr>"

text \<open>The Euclidean length of a \<open>Vector2\<close>, over the reals.\<close>

definition length2 :: "vec2 \<Rightarrow> real" where
  "length2 a = sqrt (x2 a * x2 a + y2 a * y2 a)"

definition add3 :: "vec3 \<Rightarrow> vec3 \<Rightarrow> vec3" where
  "add3 a b = V3 (vx a + vx b) (vy a + vy b) (vz a + vz b)"

definition sub3 :: "vec3 \<Rightarrow> vec3 \<Rightarrow> vec3" where
  "sub3 a b = V3 (vx a - vx b) (vy a - vy b) (vz a - vz b)"

definition multiplyScalar3 :: "vec3 \<Rightarrow> real \<Rightarrow> vec3" where
  "multiplyScalar3 a s = V3 (vx a * s) (vy a * s) (vz a * s)"

definition lengthSq3 :: "vec3 \<Rightarrow> real" where
  "lengthSq3 a = vx a * vx a + vy a * vy a + vz a * vz a"

definition length3 :: "vec3 \<Rightarrow> real" where
  "length3 a = sqrt (vx a * vx a + vy a * vy a + vz a * vz a)"

text \<open>three.js: \<open>divideScalar(s)\<close> is \<open>multiplyScalar(1 / s)\<close>.\<close>

definition divideScalar3 :: "vec3 \<Rightarrow> real \<Rightarrow> vec3" where
  "divideScalar3 a s = multiplyScalar3 a (1 / s)"

text \<open>
  three.js: \<open>normalize()\<close> is \<open>divideScalar(this.length() || 1)\<close>, so the zero vector is
  divided by 1 and stays the zero vector.
\<close>

definition normalize3 :: "vec3 \<Rightarrow> vec3" where
  "normalize3 a = divideScalar3 a (if length3 a = 0 then 1 else length3 a)"

definition negate3 :: "vec3 \<Rightarrow> vec3" where
  "negate3 a = V3 (- vx a) (- vy a) (- vz a)"

definition distanceTo :: "vec3 \<Rightarrow> vec3 \<Rightarrow> real" where
  "distanceTo a b = length3 (sub3 a b)"

text \<open>three.js: \<open>a.lerp(b, alpha)\<close> sets \<open>a\<close> to \<open>a + (b - a) * alpha\<close>, componentwise.\<close>

definition lerp3 :: "vec3 \<Rightarrow> vec3 \<Rightarrow> real \<Rightarrow> vec3" where
  "lerp3 a b alpha = V3 (vx a + (vx b - vx a) * alpha) (vy a + (vy b - vy a) * alpha)
                        (vz a + (vz b - vz a) * alpha)"

section \<open>Double-precision arithmetic\<close>

text \<open>
  A JavaScript number is an IEEE 754 binary64 value, and every arithmetic operation returns
  the double nearest to the exact result, a tie going to the double whose last significand
  bit is even.  \<open>fl x\<close> is that double, for a real \<open>x\<close>: with \<open>e\<close> the integer part of
  \<open>log 2 |x|\<close>, the doubles around \<open>x\<close> are the integer multiples of \<open>2 powr (e - 52)\<close> (a
  significand of 53 bits), and \<open>x\<close> is rounded to the nearest of them.  The exponent is not bounded here, so overflow to
  Infinity and the subnormal range are outside the model; the values of this development
  stay far from both.
\<close>

definition roundHalfEven :: "real \<Rightarrow> int" where
  "roundHalfEven y =
     (let f = \<lfloor>y\<rfloor> in
      if y - of_int f < 1 / 2 then f
      else if 1 / 2 < y - of_int f then f + 1
      else if even f then f else f + 1)"

definition fl :: "real \<Rightarrow> real" where
  "fl x =
     (if x = 0 then 0
      else
        let e = \<lfloor>log 2 \<bar>x\<bar>\<rfloor>;
            u = 2 powr (of_int e - 52)
        in u * of_int (roundHalfEven (x / u)))"

text \<open>
  The three.js vector operations as they compute on doubles, one rounding for each
  arithmetic operation of the library's code (three.js 0.160.0, the version \<open>index.html\<close>
  imports): \<open>add\<close> and \<open>subVectors\<close> work componentwise,
  \<open>multiplyScalar(s)\<close> multiplies each component by \<open>s\<close>, \<open>length()\<close> is
  \<open>Math.sqrt(x * x + y * y)\<close> (and \<open>Math.sqrt(x * x + y * y + z * z)\<close>, summed from the left),
  \<open>divideScalar(s)\<close> is \<open>multiplyScalar(1 / s)\<close> and \<open>normalize()\<close> is
  \<open>divideScalar(length() || 1)\<close>.
\<close>

definition add2_fl :: "vec2 \<Rightarrow> vec2 \<Rightarrow> vec2" where
  "add2_fl a b = V2 (fl (x2 a + x2 b)) (fl (y2 a + y2 b))"

definition sub2_fl :: "vec2 \<Rightarrow> vec2 \<Rightarrow> vec2" where
  "sub2_fl a b = V2 (fl (x2 a - x2 b)) (fl (y2 a - y2 b))"

definition multiplyScalar2_fl :: "vec2 \<Rightarrow> real \<Rightarrow> vec2" where
  "multiplyScalar2_fl a s = V2 (fl (x2 a * s)) (fl (y2 a * s))"

definition length2_fl :: "vec2 \<Rightarrow> real" where
  "length2_fl a = fl (sqrt (fl (fl (x2 a * x2 a) + fl (y2 a * y2 a))))"

definition divideScalar2_fl :: "vec2 \<Rightarrow> real \<Rightarrow> vec2" where
  "divideScalar2_fl a s = multiplyScalar2_fl a (fl (1 / s))"

definition normalize2_fl :: "vec2 \<Rightarrow> vec2" where
  "normalize2_fl a = divideScalar2_fl a (if length2_fl a = 0 then 1 else length2_fl a)"

definition add3_fl :: "vec3 \<Rightarrow> vec3 \<Rightarrow> vec3" where
  "add3_fl a b = V3 (fl (vx a + vx b)) (fl (vy a + vy b)) (fl (vz a + vz b))"

definition sub3_fl :: "vec3 \<Rightarrow> vec3 \<Rightarrow> vec3" where
  "sub3_fl a b = V3 (fl (vx a - vx b)) (fl (vy a - vy b)) (fl (vz a - vz b))"

definition multiplyScalar3_fl :: "vec3 \<Rightarrow> real \<Rightarrow> vec3" where
  "multiplyScalar3_fl a s = V3 (fl (vx a * s)) (fl (vy a * s)) (fl (vz a * s))"

definition length3_fl :: "vec3 \<Rightarrow> real" where
  "length3_fl a = fl (sqrt (fl (fl (fl (vx a * vx a) + fl (vy a * vy a)) + fl (vz a * vz a))))"

definition divideScalar3_fl :: "vec3 \<Rightarrow> real \<Rightarrow> vec3" where
  "divideScalar3_fl a s = multiplyScalar3_fl a (fl (1 / s))"

definition normalize3_fl :: "vec3 \<Rightarrow> vec3" where
  "normalize3_fl a = divideScalar3_fl a (if length3_fl a = 0 then 1 else length3_fl a)"

section \<open>The PID controller of \<open>ImprovedPhysicsEngine\<close>\<close>

text \<open>
  A controller object of \<open>this.pidControllers\<close>.  The scalar controller
  (\<open>verticalVelocity\<close>) holds numbers, \<open>horizontalPosition\<close> holds \<open>Vector2\<close> values and
  \<open>attitude\<close> holds \<open>Vector3\<close> values (its setpoint is an \<open>Euler\<close>), hence the type
  parameter.
\<close>

record 'a pid =
  kP :: real
  kI :: real
  kD :: real
  setpoint :: 'a
  integral :: 'a
  previousError :: 'a
  outputValue :: 'a
  maxOutput :: real
  minOutput :: real

text \<open>
  \<open>updatePID(controller, currentValue, deltaTime)\<close> selects one of three branches by the class
  of \<open>currentValue\<close>; each branch is one function here, the argument type doing the
  dispatch.  The arithmetic is that of doubles: every operation of the source is rounded by
  \<open>fl\<close>, and the arguments are meant to be doubles.  (\<open>Math.max\<close> and \<open>Math.min\<close> return one
  of their arguments and do not round.)  The source divides the error difference by
  \<open>deltaTime\<close>: with \<open>deltaTime = 0\<close> the derivative is Infinity or NaN, which is the result
  \<open>None\<close>.  The value the source returns is the \<open>output\<close> field of the updated controller
  (\<open>outputValue\<close> here, as \<open>output\<close> is reserved in Isabelle).
\<close>

definition updatePID_scalar :: "real pid \<Rightarrow> real \<Rightarrow> real \<Rightarrow> real pid option" where
  "updatePID_scalar controller currentValue deltaTime =
     (if deltaTime = 0 then None
      else
        let error = fl (setpoint controller - currentValue);
            derivative = fl (fl (error - previousError controller) / deltaTime);
            integral1 = fl (integral controller + fl (error * deltaTime));
            integral2 = max (minOutput controller) (min (maxOutput controller) integral1);
            output1 = fl (fl (fl (kP controller * error) + fl (kI controller * integral2))
                          + fl (kD controller * derivative));
            output2 = max (minOutput controller) (min (maxOutput controller) output1)
        in Some (controller\<lparr>integral := integral2, outputValue := output2, previousError := error\<rparr>))"

definition updatePID_vector2 :: "vec2 pid \<Rightarrow> vec2 \<Rightarrow> real \<Rightarrow> vec2 pid option" where
  "updatePID_vector2 controller currentValue deltaTime =
     (if deltaTime = 0 then None
      else
        let error = sub2_fl (setpoint controller) currentValue;
            derivative = divideScalar2_fl (sub2_fl error (previousError controller)) deltaTime;
            integral1 = add2_fl (integral controller) (multiplyScalar2_fl error deltaTime);
            integral2 = (if length2_fl integral1 > maxOutput controller
                         then multiplyScalar2_fl (normalize2_fl integral1) (maxOutput controller)
                         else integral1);
            output1 = add2_fl (add2_fl (add2_fl (V2 0 0) (multiplyScalar2_fl error (kP controller)))
                                       (multiplyScalar2_fl integral2 (kI controller)))
                              (multiplyScalar2_fl derivative (kD controller));
            output2 = (if length2_fl output1 > maxOutput controller
                       then multiplyScalar2_fl (normalize2_fl output1) (maxOutput controller)
                       else output1)
        in Some (controller\<lparr>integral := integral2, outputValue := output2, previousError := error\<rparr>))"

text \<open>
  The \<open>Vector3\<close> branch also serves an \<open>Euler\<close> argument and an \<open>Euler\<close> setpoint, which
  the source first copies into a \<open>Vector3\<close>.
\<close>

definition updatePID_vector3 :: "vec3 pid \<Rightarrow> vec3 \<Rightarrow> real \<Rightarrow> vec3 pid option" where
  "updatePID_vector3 controller currentValue deltaTime =
     (if deltaTime = 0 then None
      else
        let error = sub3_fl (setpoint controller) currentValue;
            derivative = divideScalar3_fl (sub3_fl error (previousError controller)) deltaTime;
            integral1 = add3_fl (integral controller) (multiplyScalar3_fl error deltaTime);
            integral2 = (if length3_fl integral1 > maxOutput controller
                         then multiplyScalar3_fl (normalize3_fl integral1) (maxOutput controller)
                         else integral1);
            output1 = add3_fl (add3_fl (add3_fl (V3 0 0 0) (multiplyScalar3_fl error (kP controller)))
                                       (multiplyScalar3_fl integral2 (kI controller)))
                              (multiplyScalar3_fl derivative (kD controller));
            output2 = (if length3_fl output1 > maxOutput controller
                       then multiplyScalar3_fl (normalize3_fl output1) (maxOutput controller)
                       else output1)
        in Some (controller\<lparr>integral := integral2, outputValue := output2, previousError := error\<rparr>))"

text \<open>
  A sequence of calls on the scalar controller: each element is the measured value and the
  time step of one call.  The run stops with \<open>None\<close> at the first call that produces a
  non-finite value.
\<close>

fun updatePID_scalar_calls :: "real pid \<Rightarrow> (real \<times> real) list \<Rightarrow> real pid option" where
  "updatePID_scalar_calls c [] = Some c"
| "updatePID_scalar_calls c ((x, dt) # rest) =
     (case updatePID_scalar c x dt of None \<Rightarrow> None | Some c' \<Rightarrow> updatePID_scalar_calls c' rest)"

text \<open>The bounds of the scalar controller, as a predicate on a controller state.\<close>

definition scalar_bounded :: "real pid \<Rightarrow> bool" where
  "scalar_bounded c \<longleftrightarrow>
     minOutput c \<le> outputValue c \<and> outputValue c \<le> maxOutput c \<and>
     minOutput c \<le> integral c \<and> integral c \<le> maxOutput c"

text \<open>
  The gains and bounds of a controller are written in the source as decimal literals
  (\<open>kP: 0.1\<close>, \<open>maxOutput: 0.2\<close>, \<open>minOutput: -0.2\<close>), and a literal denotes the double nearest
  to it; \<open>-0.2\<close> is the negation of the double \<open>0.2\<close>.  \<open>double_literals\<close> turns a
  controller written with the decimal values into the one the program holds.
\<close>

definition double_literals :: "'a pid \<Rightarrow> 'a pid" where
  "double_literals c =
     c\<lparr>kP := fl (kP c), kI := fl (kI c), kD := fl (kD c),
       maxOutput := fl (maxOutput c), minOutput := - fl (- minOutput c)\<rparr>"


section \<open>\<open>ImprovedPhysicsEngine\<close>: data\<close>

text \<open>
  A vehicle object of \<open>this.vehicles\<close>.  \<open>gimbalPosition\<close> and \<open>gridFinDeflection\<close> are
  optional because the source tests whether they exist: the constructor leaves
  \<open>gridFinDeflection\<close> undefined and \<open>reset()\<close> is the first to assign it.  \<open>gridFins\<close>
  exists on the booster and \<open>flaps\<close> on the upper stage.  The fields that the functions
  embedded below never read (landing legs, heat shield, engine timing constants, and the
  \<open>quaternion\<close> and \<open>eulerAngles\<close> copies of \<open>rotation\<close> kept for display) are left out.
\<close>

record surface =
  deployed :: bool
  effectiveness :: real
  dragContribution :: real

record vehicle =
  mass :: real
  fuel :: real
  maxThrust :: real
  dragCoefficient :: real
  crossSectionalArea :: real
  position :: vec3
  velocity :: vec3
  acceleration :: vec3
  rotation :: vec3
  angularVelocity :: vec3
  throttle :: real
  active :: bool
  gimbalPosition :: "vec2 option"
  gridFinDeflection :: "real option"
  gridFins :: "surface option"
  flaps :: "surface option"

datatype vehicle_id = Starship | SuperHeavy

text \<open>The values of \<open>this.landingPhase\<close> and of \<open>this.returnParams.phase\<close> (strings in the source).\<close>

datatype landing_phase =
  PhaseNone | Approach | Final | Touchdown | Return | Coast | Boostback | Entry | Descent | Landing

datatype return_phase = ReturnCoast | ReturnFlip | ReturnBurn | ReturnApproach

record return_params =
  startTime :: real
  coastDuration :: real
  turnDuration :: real
  burnDuration :: real
  phase :: return_phase

text \<open>Of \<open>this.landingParams\<close> only the two timers are ever written; the thresholds are constants.\<close>

record landing_params =
  phaseStartTime :: real
  currentPhaseTime :: real

record pid_controllers =
  verticalVelocity :: "real pid"
  horizontalPosition :: "vec2 pid"
  attitude :: "vec3 pid"

text \<open>
  The engine object.  \<open>separationTimer\<close> and \<open>returnParams\<close> are absent until stage separation
  creates them; \<open>landingStartAltitude\<close>, \<open>hoverAltitude\<close> and \<open>touchdownSpeed\<close> are absent
  until the main program's \<open>startLandingSequence\<close> assigns them.
\<close>

record engine =
  gravity :: real
  combinedStage :: bool
  atmosphericDensity :: real
  starship :: vehicle
  superHeavy :: vehicle
  airDensitySeaLevel :: real
  atmosphereScaleHeight :: real
  landingTarget :: "vec3 option"
  landingPhase :: landing_phase
  landingParams :: landing_params
  pidControllers :: pid_controllers
  simulationTime :: real
  windSpeed :: real
  windDirection :: real
  gustStrength :: real
  turbulenceIntensity :: real
  separationTimer :: "real option"
  separationCompleted :: bool
  returnParams :: "return_params option"
  landingStartAltitude :: "real option"
  hoverAltitude :: "real option"
  touchdownSpeed :: "real option"

definition vehicleOf :: "engine \<Rightarrow> vehicle_id \<Rightarrow> vehicle" where
  "vehicleOf e i = (case i of Starship \<Rightarrow> starship e | SuperHeavy \<Rightarrow> superHeavy e)"

definition setVehicle :: "engine \<Rightarrow> vehicle_id \<Rightarrow> vehicle \<Rightarrow> engine" where
  "setVehicle e i v = (case i of Starship \<Rightarrow> e\<lparr>starship := v\<rparr> | SuperHeavy \<Rightarrow> e\<lparr>superHeavy := v\<rparr>)"

text \<open>The state the constructor builds.\<close>

definition new_pidControllers :: pid_controllers where
  "new_pidControllers =
     \<lparr>verticalVelocity =
        \<lparr>kP = 0.2, kI = 0.01, kD = 0.1, setpoint = 0, integral = 0, previousError = 0,
         outputValue = 0, maxOutput = 0.3, minOutput = - 0.3\<rparr>,
      horizontalPosition =
        \<lparr>kP = 0.1, kI = 0.005, kD = 0.05, setpoint = V2 0 0, integral = V2 0 0,
         previousError = V2 0 0, outputValue = V2 0 0, maxOutput = 0.2, minOutput = - 0.2\<rparr>,
      attitude =
        \<lparr>kP = 0.5, kI = 0.01, kD = 0.2, setpoint = V3 0 0 0, integral = V3 0 0 0,
         previousError = V3 0 0 0, outputValue = V3 0 0 0, maxOutput = 0.1, minOutput = - 0.1\<rparr>\<rparr>"

definition new_starship :: vehicle where
  "new_starship =
     \<lparr>mass = 120000, fuel = 1200000, maxThrust = 7500000, dragCoefficient = 0.82,
      crossSectionalArea = pi * 4.5 * 4.5,
      position = V3 0 0 0, velocity = V3 0 0 0, acceleration = V3 0 0 0, rotation = V3 0 0 0,
      angularVelocity = V3 0 0 0, throttle = 0, active = False,
      gimbalPosition = Some (V2 0 0), gridFinDeflection = None, gridFins = None,
      flaps = Some \<lparr>deployed = False, effectiveness = 0, dragContribution = 0.3\<rparr>\<rparr>"

definition new_superHeavy :: vehicle where
  "new_superHeavy =
     \<lparr>mass = 200000, fuel = 3400000, maxThrust = 72000000, dragCoefficient = 0.8,
      crossSectionalArea = 100,
      position = V3 0 0 0, velocity = V3 0 0 0, acceleration = V3 0 0 0, rotation = V3 0 0 0,
      angularVelocity = V3 0 0 0, throttle = 0, active = False,
      gimbalPosition = Some (V2 0 0), gridFinDeflection = None,
      gridFins = Some \<lparr>deployed = False, effectiveness = 0, dragContribution = 0.2\<rparr>,
      flaps = None\<rparr>"

definition new_ImprovedPhysicsEngine :: engine where
  "new_ImprovedPhysicsEngine =
     \<lparr>gravity = 9.81, combinedStage = True, atmosphericDensity = 1.225,
      starship = new_starship, superHeavy = new_superHeavy,
      airDensitySeaLevel = 1.225, atmosphereScaleHeight = 8500,
      landingTarget = Some (V3 0 0 0), landingPhase = PhaseNone,
      landingParams = \<lparr>phaseStartTime = 0, currentPhaseTime = 0\<rparr>,
      pidControllers = new_pidControllers,
      simulationTime = 0, windSpeed = 0, windDirection = 0, gustStrength = 0,
      turbulenceIntensity = 0,
      separationTimer = None, separationCompleted = False, returnParams = None,
      landingStartAltitude = None, hoverAltitude = None, touchdownSpeed = None\<rparr>"

section \<open>\<open>ImprovedPhysicsEngine\<close>: the force model\<close>

text \<open>
  three.js, \<open>Quaternion.setFromEuler\<close> for the order XYZ and \<open>Vector3.applyQuaternion\<close>.
\<close>

record quat =
  qx :: real
  qy :: real
  qz :: real
  qw :: real

definition setFromEuler :: "vec3 \<Rightarrow> quat" where
  "setFromEuler r =
     (let c1 = cos (vx r / 2); c2 = cos (vy r / 2); c3 = cos (vz r / 2);
          s1 = sin (vx r / 2); s2 = sin (vy r / 2); s3 = sin (vz r / 2)
      in \<lparr>qx = s1 * c2 * c3 + c1 * s2 * s3,
          qy = c1 * s2 * c3 - s1 * c2 * s3,
          qz = c1 * c2 * s3 + s1 * s2 * c3,
          qw = c1 * c2 * c3 - s1 * s2 * s3\<rparr>)"

definition applyQuaternion :: "vec3 \<Rightarrow> quat \<Rightarrow> vec3" where
  "applyQuaternion v q =
     (let tx = 2 * (qy q * vz v - qz q * vy v);
          ty = 2 * (qz q * vx v - qx q * vz v);
          tz = 2 * (qx q * vy v - qy q * vx v)
      in V3 (vx v + qw q * tx + qy q * tz - qz q * ty)
            (vy v + qw q * ty + qz q * tx - qx q * tz)
            (vz v + qw q * tz + qx q * ty - qy q * tx))"

text \<open>
  \<open>calculateForces(vehicle, dt)\<close> adds five contributions to a zero vector, in this order:
  gravity, thrust, drag, grid fins, wind.  Each contribution is one function here.
\<close>

definition gravityForce :: "engine \<Rightarrow> vehicle \<Rightarrow> vec3" where
  "gravityForce e v = V3 0 (0 - gravity e * (mass v + fuel v)) 0"

definition gimbalOrZero :: "vehicle \<Rightarrow> vec2" where
  "gimbalOrZero v = (case gimbalPosition v of None \<Rightarrow> V2 0 0 | Some g \<Rightarrow> g)"

text \<open>The thrust branch is entered on \<open>vehicle.throttle > 0\<close> alone.\<close>

definition thrustForce :: "vehicle \<Rightarrow> vec3" where
  "thrustForce v =
     (if throttle v > 0 then
        let g = gimbalOrZero v;
            thrustDirection =
              normalize3 (applyQuaternion (V3 (x2 g * 0.1) 1.0 (y2 g * 0.1))
                                          (setFromEuler (rotation v)));
            thrustMagnitude = maxThrust v * throttle v
        in multiplyScalar3 thrustDirection thrustMagnitude
      else V3 0 0 0)"

definition densityFactor :: "engine \<Rightarrow> vehicle \<Rightarrow> real" where
  "densityFactor e v = exp (- vy (position v) / 11000) * atmosphericDensity e"

definition dragForce :: "engine \<Rightarrow> vehicle \<Rightarrow> vec3" where
  "dragForce e v =
     (let velocitySquared = lengthSq3 (velocity v) in
      if velocitySquared > 0 then
        let dragMagnitude = 0.5 * densityFactor e v * velocitySquared *
                            dragCoefficient v * crossSectionalArea v;
            dragDirection = negate3 (normalize3 (velocity v))
        in multiplyScalar3 dragDirection dragMagnitude
      else V3 0 0 0)"

text \<open>
  Grid fins: the test is \<open>vehicle.gridFinDeflection !== 0 && densityFactor > 0.001\<close>.  An
  undefined deflection passes the first test and then makes the force NaN: result \<open>None\<close>.
  Besides the force, the branch adds to \<open>vehicle.angularVelocity.z\<close>.
\<close>

definition finForce :: "engine \<Rightarrow> vehicle \<Rightarrow> vec3 option" where
  "finForce e v =
     (case gridFinDeflection v of
        None \<Rightarrow> if densityFactor e v > 0.001 then None else Some (V3 0 0 0)
      | Some d \<Rightarrow>
          if d \<noteq> 0 \<and> densityFactor e v > 0.001
          then Some (V3 (d * lengthSq3 (velocity v) * 0.01 * densityFactor e v) 0 0)
          else Some (V3 0 0 0))"

definition finTorque :: "engine \<Rightarrow> vehicle \<Rightarrow> real \<Rightarrow> real" where
  "finTorque e v dt =
     (case gridFinDeflection v of
        None \<Rightarrow> 0
      | Some d \<Rightarrow>
          if d \<noteq> 0 \<and> densityFactor e v > 0.001
          then d * lengthSq3 (velocity v) * 0.0001 * densityFactor e v * dt
          else 0)"

definition windForce :: "engine \<Rightarrow> vehicle \<Rightarrow> vec3" where
  "windForce e v =
     (if windSpeed e > 0 \<and> densityFactor e v > 0.001 then
        let windDir = V3 (cos (windDirection e)) 0 (sin (windDirection e));
            gustVector = multiplyScalar3 windDir (gustStrength e);
            windForce1 = multiplyScalar3 windDir
                           (windSpeed e * densityFactor e v * crossSectionalArea v * 0.5)
        in add3 windForce1 gustVector
      else V3 0 0 0)"

text \<open>
  The result is the net force and the vehicle as the call leaves it: a missing
  \<open>gimbalPosition\<close> is created in the thrust branch, and the grid-fin branch has added to
  \<open>angularVelocity.z\<close>.
\<close>

definition calculateForces :: "engine \<Rightarrow> vehicle \<Rightarrow> real \<Rightarrow> (vec3 \<times> vehicle) option" where
  "calculateForces e v dt =
     (case finForce e v of
        None \<Rightarrow> None
      | Some fin \<Rightarrow>
          Some (add3 (add3 (add3 (add3 (gravityForce e v) (thrustForce v)) (dragForce e v)) fin)
                     (windForce e v),
                v\<lparr>gimbalPosition := (if throttle v > 0 then Some (gimbalOrZero v)
                                       else gimbalPosition v),
                  angularVelocity := (angularVelocity v)
                     \<lparr>vz := vz (angularVelocity v) + finTorque e v dt\<rparr>\<rparr>))"

definition calculateAirDensity :: "engine \<Rightarrow> real \<Rightarrow> real" where
  "calculateAirDensity e altitude = airDensitySeaLevel e * exp (- altitude / atmosphereScaleHeight e)"

text \<open>
  \<open>calculateDrag(vehicle, altitude)\<close>.  The source compares the vehicle object with
  \<open>this.vehicles.superHeavy\<close> and \<open>this.vehicles.starship\<close>; the model passes the key.
\<close>

definition calculateDrag :: "engine \<Rightarrow> vehicle_id \<Rightarrow> real \<Rightarrow> vec3" where
  "calculateDrag e i altitude =
     (let v = vehicleOf e i;
          velocityMagnitude = length3 (velocity v)
      in if velocityMagnitude < 0.01 then V3 0 0 0
         else
           let airDensity = calculateAirDensity e altitude;
               dragCoefficient1 =
                 (case (i, gridFins v, flaps v) of
                    (SuperHeavy, Some g, _) \<Rightarrow>
                       if deployed g then dragCoefficient v + dragContribution g * effectiveness g
                       else dragCoefficient v
                  | (Starship, _, Some f) \<Rightarrow>
                       if deployed f then dragCoefficient v + dragContribution f * effectiveness f
                       else dragCoefficient v
                  | _ \<Rightarrow> dragCoefficient v);
               dragForceMagnitude = 0.5 * airDensity * velocityMagnitude * velocityMagnitude *
                                    dragCoefficient1 * crossSectionalArea v
           in multiplyScalar3 (normalize3 (velocity v)) (- dragForceMagnitude))"


section \<open>\<open>ImprovedPhysicsEngine\<close>: integration\<close>

text \<open>
  \<open>updateWind\<close> draws from \<open>Math.random()\<close>; the draws (numbers in the interval from 0 to 1)
  are a parameter.  \<open>windSpeed\<close> is not written.
\<close>

record wind_draws =
  drawDirection :: real
  drawGust :: real
  drawGustStrength :: real
  drawTurbulence :: real

definition updateWind :: "engine \<Rightarrow> real \<Rightarrow> wind_draws \<Rightarrow> engine" where
  "updateWind e deltaTime r =
     e\<lparr>windDirection := windDirection e + (drawDirection r - 0.5) * 0.01,
       gustStrength := (if drawGust r < 0.01 then drawGustStrength r * 5.0
                        else gustStrength e * 0.95),
       turbulenceIntensity := drawTurbulence r * windSpeed e * 0.1\<rparr>"

text \<open>
  \<open>updateLandingControl(vehicle, dt)\<close> is not embedded.  It assigns \<open>vehicle.throttle\<close>,
  \<open>vehicle.angularVelocity.y\<close> or \<open>.z\<close>, \<open>vehicle.gridFinDeflection\<close>,
  \<open>vehicle.gimbalPosition\<close>, \<open>this.landingPhase\<close> and the PID controllers, and nothing else.
  The values it leaves in those places are a parameter of \<open>update\<close>, so that every statement
  proved about \<open>update\<close> holds whatever the landing control computes.
\<close>

record landing_control =
  lcThrottle :: real
  lcAngularVelocityY :: real
  lcAngularVelocityZ :: real
  lcGridFinDeflection :: "real option"
  lcGimbalPosition :: "vec2 option"
  lcLandingPhase :: landing_phase
  lcPidControllers :: pid_controllers

definition updateLandingControl_vehicle :: "landing_control \<Rightarrow> vehicle \<Rightarrow> vehicle" where
  "updateLandingControl_vehicle lc v =
     v\<lparr>throttle := lcThrottle lc,
       angularVelocity := (angularVelocity v)\<lparr>vy := lcAngularVelocityY lc, vz := lcAngularVelocityZ lc\<rparr>,
       gridFinDeflection := lcGridFinDeflection lc,
       gimbalPosition := lcGimbalPosition lc\<rparr>"

definition updateLandingControl_engine :: "landing_control \<Rightarrow> engine \<Rightarrow> engine" where
  "updateLandingControl_engine lc e =
     e\<lparr>landingPhase := lcLandingPhase lc, pidControllers := lcPidControllers lc\<rparr>"

definition divideForces :: "vec3 \<Rightarrow> real \<Rightarrow> vec3" where
  "divideForces forces totalMass =
     V3 (vx forces / totalMass) (vy forces / totalMass) (vz forces / totalMass)"

definition burnFuel :: "vehicle \<Rightarrow> real \<Rightarrow> real" where
  "burnFuel v dt = (let fuelRate = maxThrust v * throttle v / 3000 in max 0 (fuel v - fuelRate * dt))"

text \<open>Acceleration, velocity, position and rotation, as both integrators write them.\<close>

definition integrate :: "vehicle \<Rightarrow> vec3 \<Rightarrow> real \<Rightarrow> real \<Rightarrow> vehicle" where
  "integrate v forces totalMass dt =
     (let acceleration1 = divideForces forces totalMass;
          velocity1 = add3 (velocity v) (multiplyScalar3 acceleration1 dt);
          position1 = add3 (position v) (multiplyScalar3 velocity1 dt);
          rotation1 = add3 (rotation v) (multiplyScalar3 (angularVelocity v) dt)
      in v\<lparr>acceleration := acceleration1, velocity := velocity1, position := position1,
           rotation := rotation1\<rparr>)"

definition groundStop :: "vehicle \<Rightarrow> vehicle" where
  "groundStop v =
     v\<lparr>position := (position v)\<lparr>vy := 0\<rparr>, velocity := V3 0 0 0, acceleration := V3 0 0 0,
       angularVelocity := V3 0 0 0\<rparr>"

text \<open>
  The body of the loop of \<open>update(deltaTime, scene)\<close> for one entry of \<open>this.vehicles\<close>;
  \<open>dt\<close> is the capped step.  The division by \<open>totalMass\<close> is unguarded here: a zero total
  mass gives \<open>None\<close>.
\<close>

definition update_vehicle :: "engine \<Rightarrow> vehicle_id \<Rightarrow> real \<Rightarrow> landing_control \<Rightarrow> engine option" where
  "update_vehicle e i dt lc =
     (if \<not> active (vehicleOf e i) then Some e
      else
        case calculateForces e (vehicleOf e i) dt of
          None \<Rightarrow> None
        | Some (forces, v1) \<Rightarrow>
            let landing = (landingPhase e \<noteq> PhaseNone \<and> i = SuperHeavy);
                e2 = (if landing then updateLandingControl_engine lc e else e);
                v2 = (if landing then updateLandingControl_vehicle lc v1 else v1);
                totalMass = mass v2 + fuel v2
            in if totalMass = 0 then None
               else
                 let v3 = integrate v2 forces totalMass dt;
                     v4 = (if throttle v3 > 0 then v3\<lparr>fuel := burnFuel v3 dt\<rparr> else v3)
                 in if vy (position v4) < 0
                    then Some (setVehicle
                                 (if landingPhase e2 = Final then e2\<lparr>landingPhase := Touchdown\<rparr> else e2)
                                 i (groundStop v4))
                    else Some (setVehicle e2 i v4))"

text \<open>
  \<open>update\<close>: the step is capped at 0.1 s, the wind is updated, then the vehicles are visited in
  the order of the object's keys (\<open>starship\<close>, \<open>superHeavy\<close>).  The telemetry object it
  returns is read off the resulting state.
\<close>

definition update :: "engine \<Rightarrow> real \<Rightarrow> wind_draws \<Rightarrow> landing_control \<Rightarrow> engine option" where
  "update e deltaTime r lc =
     (let dt = min deltaTime 0.1;
          e1 = updateWind e dt r
      in case update_vehicle e1 Starship dt lc of
           None \<Rightarrow> None
         | Some e2 \<Rightarrow> update_vehicle e2 SuperHeavy dt lc)"

text \<open>
  \<open>updateVehiclePhysics(vehicle, deltaTime, enginesOn)\<close>, the integrator of the separation,
  return, landing and catch phases.  It returns early when the total mass is not positive;
  what \<open>calculateForces\<close> already did to the vehicle stays.
\<close>

definition updateVehiclePhysics :: "engine \<Rightarrow> vehicle_id \<Rightarrow> real \<Rightarrow> bool \<Rightarrow> engine option" where
  "updateVehiclePhysics e i deltaTime enginesOn =
     (let dt = min deltaTime 0.1 in
      case calculateForces e (vehicleOf e i) dt of
        None \<Rightarrow> None
      | Some (forces, v1) \<Rightarrow>
          let totalMass = mass v1 + fuel v1 in
          if totalMass \<le> 0 then Some (setVehicle e i v1)
          else
            let v3 = integrate v1 forces totalMass dt;
                v4 = (if enginesOn \<and> throttle v3 > 0 then v3\<lparr>fuel := burnFuel v3 dt\<rparr> else v3)
            in if vy (position v4) < 0
               then Some (setVehicle
                            (if i = SuperHeavy \<and> landingPhase e = Final
                             then e\<lparr>landingPhase := Touchdown\<rparr> else e)
                            i (groundStop v4))
               else Some (setVehicle e i v4))"

text \<open>
  \<open>updateMechazillaCatch(deltaTime)\<close>.  Of the object it returns, the fields that are not
  copies of the booster's state are kept.
\<close>

record catch_report =
  distanceToCatch :: real
  catchComplete :: bool
  engineThrottle :: real

definition catchPosition :: vec3 where
  "catchPosition = V3 (- 120) 100 0"

definition updateMechazillaCatch :: "engine \<Rightarrow> real \<Rightarrow> (engine \<times> catch_report) option" where
  "updateMechazillaCatch e deltaTime =
     (let booster = superHeavy e;
          distance = distanceTo (position booster) catchPosition;
          desiredSpeed = min 5 (distance * 0.1);
          direction = normalize3 (sub3 catchPosition (position booster));
          currentSpeed = length3 (velocity booster);
          speedDiff = desiredSpeed - currentSpeed;
          accelerationFactor = min 2.0 (1.0 + distance * 0.01);
          acceleration1 = multiplyScalar3 direction (speedDiff * accelerationFactor);
          maxAccel = 5.0;
          acceleration2 = (if length3 acceleration1 > maxAccel
                           then multiplyScalar3 (normalize3 acceleration1) maxAccel
                           else acceleration1);
          acceleration3 = lerp3 (acceleration booster) acceleration2 0.2;
          throttle1 = 0.1 + 0.2 * min 1.0 (distance / 50);
          acceleration4 = (if \<bar>vy (position booster) - vy catchPosition\<bar> > 5
                           then acceleration3\<lparr>vy := vy acceleration3 +
                                   (vy catchPosition - vy (position booster)) * 0.1\<rparr>
                           else acceleration3);
          e1 = e\<lparr>superHeavy := booster\<lparr>acceleration := acceleration4, throttle := throttle1\<rparr>\<rparr>
      in case updateVehiclePhysics e1 SuperHeavy deltaTime True of
           None \<Rightarrow> None
         | Some e2 \<Rightarrow>
             let complete = (distance < 10);
                 b2 = superHeavy e2;
                 b3 = (if distance < 50
                       then b2\<lparr>rotation := (rotation b2)\<lparr>vx := vx (rotation b2) * 0.95,
                                                          vz := vz (rotation b2) * 0.95\<rparr>\<rparr>
                       else b2)
             in Some (e2\<lparr>superHeavy := b3\<rparr>,
                      \<lparr>distanceToCatch = distance, catchComplete = complete,
                       engineThrottle = throttle b3\<rparr>))"

text \<open>\<open>initializeBoosterReturn()\<close>, called when stage separation completes.\<close>

definition initializeBoosterReturn :: "engine \<Rightarrow> engine" where
  "initializeBoosterReturn e =
     e\<lparr>landingTarget := Some (V3 (- 120) 0 0),
       landingPhase := Return,
       returnParams := Some \<lparr>startTime = simulationTime e, coastDuration = 10.0,
                             turnDuration = 5.0, burnDuration = 15.0, phase = ReturnCoast\<rparr>\<rparr>"

text \<open>
  \<open>reset()\<close>.  The constructor always creates \<open>this.vehicles\<close>, \<open>this.landingParams\<close> and
  \<open>this.pidControllers\<close> and nothing removes them, so the branches of \<open>reset()\<close> that rebuild
  a missing one are never taken; the model has the branches for existing objects.
\<close>

definition reset_vehicle :: "vehicle_id \<Rightarrow> vehicle \<Rightarrow> vehicle" where
  "reset_vehicle vehicleKey v =
     v\<lparr>position := V3 0 (if vehicleKey = SuperHeavy then 0.1 else 60.75) 0,
       velocity := V3 0 0 0,
       acceleration := V3 0 0 0,
       rotation := V3 0 0 0,
       angularVelocity := V3 0 0 0,
       throttle := 0,
       gridFinDeflection := Some 0,
       gimbalPosition := Some (V2 0 0),
       active := True\<rparr>"

definition reset_pidControllers :: "pid_controllers \<Rightarrow> pid_controllers" where
  "reset_pidControllers p =
     p\<lparr>verticalVelocity := (verticalVelocity p)
          \<lparr>setpoint := 0, integral := 0, previousError := 0, outputValue := 0\<rparr>,
       horizontalPosition := (horizontalPosition p)
          \<lparr>setpoint := V2 0 0, integral := V2 0 0, previousError := V2 0 0, outputValue := V2 0 0\<rparr>,
       attitude := (attitude p)
          \<lparr>setpoint := V3 0 0 0, integral := V3 0 0 0, previousError := V3 0 0 0,
           outputValue := V3 0 0 0\<rparr>\<rparr>"

definition reset :: "engine \<Rightarrow> engine" where
  "reset e =
     e\<lparr>separationTimer := None,
       separationCompleted := False,
       combinedStage := True,
       starship := reset_vehicle Starship (starship e),
       superHeavy := reset_vehicle SuperHeavy (superHeavy e),
       landingPhase := PhaseNone,
       pidControllers := reset_pidControllers (pidControllers e),
       windSpeed := 0,
       gustStrength := 0,
       turbulenceIntensity := 0,
       simulationTime := 0\<rparr>"


section \<open>\<open>MechazillaCatchSimulation\<close>\<close>

text \<open>
  The tower-catch controller.  The constants \<open>armLength\<close>, \<open>armWidth\<close>, \<open>armSpread\<close> and
  \<open>catchPointsRadius\<close> are never read and are left out.
\<close>

record catch_sim =
  towerHeight :: real
  towerPosition :: vec3
  armPosition :: vec3
  armSpeed :: real
  armClosingSpeed :: real
  catchPointsHeight :: real
  armsOpen :: bool
  armsVerticalPosition :: real
  armsHorizontalPosition :: real
  catchInProgress :: bool
  catchSuccessful :: bool
  catchFailed :: bool
  boosterPosition :: vec3
  boosterVelocity :: vec3
  boosterOrientation :: vec3
  trackingError :: vec3
  trackingActive :: bool
  trackingRange :: real
  trackingAccuracy :: real

definition new_MechazillaCatchSimulation :: catch_sim where
  "new_MechazillaCatchSimulation =
     \<lparr>towerHeight = 146, towerPosition = V3 (- 50) 0 0, armPosition = V3 (- 50) 100 0,
      armSpeed = 2, armClosingSpeed = 1, catchPointsHeight = 71 * 0.8,
      armsOpen = True, armsVerticalPosition = 100, armsHorizontalPosition = 15,
      catchInProgress = False, catchSuccessful = False, catchFailed = False,
      boosterPosition = V3 0 0 0, boosterVelocity = V3 0 0 0, boosterOrientation = V3 0 0 0,
      trackingError = V3 0 0 0, trackingActive = False, trackingRange = 1000,
      trackingAccuracy = 0.1\<rparr>"

definition initialize :: "catch_sim \<Rightarrow> catch_sim" where
  "initialize s =
     s\<lparr>armsOpen := True, armsVerticalPosition := 100, armsHorizontalPosition := 15,
       catchInProgress := False, catchSuccessful := False, catchFailed := False,
       trackingActive := False\<rparr>"

text \<open>\<open>startTracking\<close> draws three tracking errors from \<open>Math.random()\<close>; the draws are a parameter.\<close>

definition startTracking :: "catch_sim \<Rightarrow> vec3 \<Rightarrow> vec3 \<Rightarrow> vec3 \<Rightarrow> catch_sim \<times> bool" where
  "startTracking s boosterPos boosterVel draws =
     (let dx = vx boosterPos - vx (towerPosition s);
          dy = vy boosterPos - vy (towerPosition s);
          dz = vz boosterPos - vz (towerPosition s);
          distance = sqrt (dx * dx + dy * dy + dz * dz)
      in if distance \<le> trackingRange s
         then (s\<lparr>trackingActive := True,
                 trackingError := V3 ((vx draws - 0.5) * 2 * trackingAccuracy s)
                                     ((vy draws - 0.5) * 2 * trackingAccuracy s)
                                     ((vz draws - 0.5) * 2 * trackingAccuracy s)\<rparr>, True)
         else (s, False))"


definition prepareForCatch :: "catch_sim \<Rightarrow> catch_sim \<times> bool" where
  "prepareForCatch s =
     (if \<not> trackingActive s then (s, False)
      else (s\<lparr>armsOpen := True, armsHorizontalPosition := 15, catchInProgress := True\<rparr>, True))"



definition MechazillaCatchSimulation_reset :: "catch_sim \<Rightarrow> catch_sim" where
  "MechazillaCatchSimulation_reset s =
     s\<lparr>armsOpen := True, armsVerticalPosition := 100, armsHorizontalPosition := 15,
       catchInProgress := False, catchSuccessful := False, catchFailed := False,
       trackingActive := False, armPosition := V3 (- 50) 100 0\<rparr>"

section \<open>The atmosphere of \<open>AerospacePhysicsEngine\<close>\<close>

definition STANDARD_ATMOSPHERE :: real where "STANDARD_ATMOSPHERE = 101325"
definition GAS_CONSTANT_AIR :: real where "GAS_CONSTANT_AIR = 287.05"
definition SCALE_HEIGHT :: real where "SCALE_HEIGHT = 8400"
definition SEA_LEVEL_TEMP :: real where "SEA_LEVEL_TEMP = 288.15"
definition LAPSE_RATE :: real where "LAPSE_RATE = 0.0065"

record atmosphere =
  temperature :: real
  pressure :: real
  density :: real

text \<open>
  \<open>updateAtmosphericConditions()\<close> reads the altitudes of the two vehicles and writes
  temperature, pressure and density.  \<open>Math.pow\<close> with a positive base is \<open>powr\<close>; the
  base is positive in the only branch that uses it.
\<close>

definition updateAtmosphericConditions :: "real \<Rightarrow> real \<Rightarrow> atmosphere" where
  "updateAtmosphericConditions starshipY superHeavyY =
     (let maxAltitude = max starshipY superHeavyY;
          (temperature1, pressure1) =
            (if maxAltitude < 11000 then
               (SEA_LEVEL_TEMP - LAPSE_RATE * maxAltitude,
                STANDARD_ATMOSPHERE *
                  ((SEA_LEVEL_TEMP - LAPSE_RATE * maxAltitude) / SEA_LEVEL_TEMP) powr 5.2561)
             else if maxAltitude < 50000 then
               (216.65, 22632 * exp (- 0.0001577 * (maxAltitude - 11000)))
             else
               (max 180 (500 - maxAltitude * 0.008),
                max 0.001 (STANDARD_ATMOSPHERE * exp (- maxAltitude / SCALE_HEIGHT))))
      in \<lparr>temperature = temperature1, pressure = pressure1,
          density = pressure1 / (GAS_CONSTANT_AIR * temperature1)\<rparr>)"

section \<open>The mission commands of the main program\<close>

datatype mission_phase =
  READY | LAUNCH | ASCENT | STAGE_SEPARATION | BOOSTER_RETURN | STARSHIP_ASCENT |
  BOOSTER_LANDING | MECHAZILLA_CATCH | MISSION_COMPLETE

text \<open>
  The module-level variables the four commands read or write.  \<open>starshipModel\<close> and
  \<open>superHeavyModel\<close> are the scene objects \<open>starship\<close> and \<open>superHeavy\<close> (position and
  quaternion); the four \<open>disabled\<close> flags are those of the buttons; \<open>missionStatus\<close> is the
  text of the status element; \<open>cameraMode\<close> is what \<open>setCameraPosition\<close> selects;
  \<open>clockRunning\<close> is set by \<open>clock.start()\<close>.

  \<open>init()\<close> registers the commands as click handlers only after the models, the camera
  controller and the physics engine have been created, so these exist whenever a command
  runs: they are plain fields, and the source's tests for a missing engine or model always
  pass.  \<open>mechazillaCatch\<close> is created by the catch command itself and is optional.
\<close>

record scene_object =
  objPosition :: vec3
  objQuaternion :: quat

record simulator =
  currentPhase :: mission_phase
  missionTime :: real
  isSimulationRunning :: bool
  starshipAscending :: bool
  clockRunning :: bool
  physicsEngine :: engine
  starshipModel :: scene_object
  superHeavyModel :: scene_object
  mechazillaCatch :: "catch_sim option"
  cameraMode :: string
  missionStatus :: string
  btnLaunchDisabled :: bool
  btnStageDisabled :: bool
  btnLandingDisabled :: bool
  btnCatchDisabled :: bool

definition startLaunch :: "simulator \<Rightarrow> simulator" where
  "startLaunch s =
     (if currentPhase s \<noteq> READY then s
      else
        let e1 = reset (physicsEngine s);
            e2 = e1\<lparr>superHeavy := (superHeavy e1)\<lparr>position := objPosition (superHeavyModel s)\<rparr>,
                    starship := (starship e1)\<lparr>position := objPosition (starshipModel s)\<rparr>\<rparr>;
            e3 = e2\<lparr>superHeavy := (superHeavy e2)\<lparr>throttle := 1.0\<rparr>\<rparr>
        in s\<lparr>clockRunning := True, missionTime := 0, physicsEngine := e3,
             starshipAscending := False, currentPhase := LAUNCH, isSimulationRunning := True,
             btnStageDisabled := False, missionStatus := ''Launch sequence initiated'',
             btnLaunchDisabled := True\<rparr>)"

definition triggerStageSeparation :: "simulator \<Rightarrow> simulator" where
  "triggerStageSeparation s =
     (if currentPhase s \<noteq> ASCENT then s
      else
        let starshipOffset = V3 0 ((71 / 2) + (50 / 2) + 0.5) 0;
            starship1 = (starshipModel s)
               \<lparr>objPosition := add3 (objPosition (superHeavyModel s)) starshipOffset,
                objQuaternion := objQuaternion (superHeavyModel s)\<rparr>;
            e = physicsEngine s;
            e1 = e\<lparr>superHeavy := (superHeavy e)\<lparr>position := objPosition (superHeavyModel s)\<rparr>,
                   starship := (starship e)\<lparr>position := objPosition starship1,
                                            velocity := velocity (superHeavy e)\<rparr>\<rparr>
        in s\<lparr>starshipModel := starship1, physicsEngine := e1,
             currentPhase := STAGE_SEPARATION, missionStatus := ''Stage separation in progress'',
             btnLandingDisabled := False, btnStageDisabled := True\<rparr>)"

definition startLandingSequence :: "simulator \<Rightarrow> simulator" where
  "startLandingSequence s =
     (if currentPhase s \<noteq> BOOSTER_RETURN then s
      else
        let e = physicsEngine s;
            e1 = (if landingTarget e = None then e\<lparr>landingTarget := Some (V3 0 0 0)\<rparr> else e);
            e2 = (if landingStartAltitude e1 = None \<or> landingStartAltitude e1 = Some 0
                  then e1\<lparr>landingStartAltitude := Some 5000, hoverAltitude := Some 50,
                          touchdownSpeed := Some 2\<rparr>
                  else e1);
            e3 = e2\<lparr>superHeavy := (superHeavy e2)\<lparr>throttle := 0.3\<rparr>,
                    landingPhase := Coast,
                    landingParams := \<lparr>phaseStartTime = missionTime s, currentPhaseTime = 0\<rparr>\<rparr>
        in s\<lparr>physicsEngine := e3, cameraMode := ''booster'', currentPhase := BOOSTER_LANDING,
             missionStatus := ''Booster landing sequence initiated'',
             btnCatchDisabled := False, btnLandingDisabled := True\<rparr>)"

text \<open>The draws of \<open>startTracking\<close> are a parameter of the catch command.\<close>

definition startMechazillaCatch :: "simulator \<Rightarrow> vec3 \<Rightarrow> simulator" where
  "startMechazillaCatch s draws =
     (if currentPhase s \<noteq> BOOSTER_LANDING then s
      else
        let c0 = (case mechazillaCatch s of None \<Rightarrow> new_MechazillaCatchSimulation | Some c \<Rightarrow> c);
            c1 = initialize (MechazillaCatchSimulation_reset c0);
            booster = superHeavy (physicsEngine s);
            c2 = fst (startTracking c1 (position booster) (velocity booster) draws);
            c3 = fst (prepareForCatch c2)
        in s\<lparr>mechazillaCatch := Some c3, cameraMode := ''tower'',
             currentPhase := MECHAZILLA_CATCH,
             missionStatus := ''Mechazilla catch sequence initiated'',
             btnCatchDisabled := True\<rparr>)"

section \<open>States used in the statements below\<close>

text \<open>
  A vehicle is well-formed when its grid-fin deflection has been assigned (as \<open>reset()\<close>
  does) and its total mass is positive (the data model's invariant).
\<close>

definition well_formed_vehicle :: "vehicle \<Rightarrow> bool" where
  "well_formed_vehicle v \<longleftrightarrow> gridFinDeflection v \<noteq> None \<and> 0 < mass v + fuel v"

text \<open>
  The engine as the main program has it before launch: constructed, then \<open>reset()\<close>.  The
  wind draws of a tick without a gust, and a landing-control result for the ticks in which
  the landing control does not run.
\<close>

definition engine_after_reset :: engine where
  "engine_after_reset = reset new_ImprovedPhysicsEngine"

definition calm_draws :: wind_draws where
  "calm_draws = \<lparr>drawDirection = 0.5, drawGust = 0.5, drawGustStrength = 0, drawTurbulence = 0\<rparr>"

definition idle_landing_control :: landing_control where
  "idle_landing_control =
     \<lparr>lcThrottle = 0, lcAngularVelocityY = 0, lcAngularVelocityZ = 0,
      lcGridFinDeflection = Some 0, lcGimbalPosition = Some (V2 0 0),
      lcLandingPhase = PhaseNone, lcPidControllers = new_pidControllers\<rparr>"

text \<open>The booster at rest at altitude \<open>h\<close> above the pad, with the engines off.\<close>

definition booster_at :: "real \<Rightarrow> engine" where
  "booster_at h =
     engine_after_reset\<lparr>superHeavy := (superHeavy engine_after_reset)\<lparr>position := V3 0 h 0\<rparr>\<rparr>"


text \<open>
  The booster hovering 10 m below the catch point with its propellant used up, at rest.
\<close>

definition booster_below_catch_point :: engine where
  "booster_below_catch_point =
     engine_after_reset\<lparr>superHeavy :=
       (superHeavy engine_after_reset)\<lparr>position := V3 (- 120) 90 0, fuel := 0\<rparr>\<rparr>"



text \<open>
  A state of the main program in phase Ready: the engine constructed and reset, the landing
  target set to the tower, the stack standing on the pad.
\<close>

definition simulator_ready :: simulator where
  "simulator_ready =
     \<lparr>currentPhase = READY, missionTime = 0, isSimulationRunning = False,
      starshipAscending = False, clockRunning = False,
      physicsEngine = engine_after_reset\<lparr>landingTarget := Some (V3 (- 120) 0 0)\<rparr>,
      starshipModel = \<lparr>objPosition = V3 0 61 0, objQuaternion = \<lparr>qx = 0, qy = 0, qz = 0, qw = 1\<rparr>\<rparr>,
      superHeavyModel = \<lparr>objPosition = V3 0 0 0, objQuaternion = \<lparr>qx = 0, qy = 0, qz = 0, qw = 1\<rparr>\<rparr>,
      mechazillaCatch = None, cameraMode = ''external'', missionStatus = ''Ready for launch'',
      btnLaunchDisabled = False, btnStageDisabled = True, btnLandingDisabled = True,
      btnCatchDisabled = True\<rparr>"

text \<open>
  The engine after a flight: the booster's propellant used up, the booster-return parameters
  created by stage separation at simulation time 30 s, the landing timers running.
\<close>

definition engine_after_flight :: engine where
  "engine_after_flight =
     (initializeBoosterReturn
        (engine_after_reset\<lparr>superHeavy := (superHeavy engine_after_reset)\<lparr>fuel := 0\<rparr>,
                           simulationTime := 30\<rparr>))
       \<lparr>landingParams := \<lparr>phaseStartTime = 42, currentPhaseTime = 7\<rparr>\<rparr>"

text \<open>
  The vector controllers as the constructor builds them and the program holds them, for the
  evaluation of \<open>updatePID\<close> on the first call of a run.
\<close>

definition horizontalPosition_controller :: "vec2 pid" where
  "horizontalPosition_controller = double_literals (horizontalPosition new_pidControllers)"

definition attitude_controller :: "vec3 pid" where
  "attitude_controller = double_literals (attitude new_pidControllers)"

section \<open>The PID controller and its bounds\<close>

text \<open>
  The scalar branch clamps the integral and the output with \<open>Math.max\<close> and \<open>Math.min\<close>,
  which return one of their arguments: whatever the rounding of the terms, both end within
  \<open>[minOutput, maxOutput]\<close>.
\<close>

lemma updatePID_scalar_step:
  assumes "deltaTime \<noteq> 0" and "minOutput c \<le> maxOutput c"
  shows "\<exists>c'. updatePID_scalar c x deltaTime = Some c' \<and> scalar_bounded c'
            \<and> minOutput c' = minOutput c \<and> maxOutput c' = maxOutput c"
  using assms by (simp add: updatePID_scalar_def scalar_bounded_def Let_def)

lemma updatePID_scalar_calls_bounded:
  assumes "calls \<noteq> []" and "\<forall>(x, dt) \<in> set calls. 0 < dt" and "minOutput c \<le> maxOutput c"
  shows "\<exists>c'. updatePID_scalar_calls c calls = Some c' \<and> scalar_bounded c'
            \<and> minOutput c' = minOutput c \<and> maxOutput c' = maxOutput c"
  using assms
proof (induction calls arbitrary: c)
  case Nil
  then show ?case by simp
next
  case (Cons call rest)
  obtain x dt where call: "call = (x, dt)" by (cases call)
  with Cons.prems have dt: "dt \<noteq> 0" by auto
  from updatePID_scalar_step [OF dt Cons.prems(3), of x]
  obtain c1 where c1: "updatePID_scalar c x dt = Some c1" "scalar_bounded c1"
    "minOutput c1 = minOutput c" "maxOutput c1 = maxOutput c" by blast
  show ?case
  proof (cases "rest = []")
    case True
    with c1 call show ?thesis by simp
  next
    case False
    from Cons.prems c1 have "\<forall>(x, dt) \<in> set rest. 0 < dt" "minOutput c1 \<le> maxOutput c1"
      by auto
    from Cons.IH [OF False this] c1 call show ?thesis by simp
  qed
qed

subsection \<open>Rounding to the nearest double\<close>

text \<open>
  \<open>fl x\<close> is found by scaling: when \<open>|x| * 2 ^ j\<close> lies in \<open>[2 ^ 52, 2 ^ 53)\<close> the doubles
  around \<open>x\<close> are the multiples of \<open>1 / 2 ^ j\<close>, and \<open>fl x\<close> is \<open>n / 2 ^ j\<close> for the integer
  \<open>n\<close> nearest to \<open>x * 2 ^ j\<close>, the even one at a tie.  For a square root the distance to
  \<open>n\<close> is compared on the squares.
\<close>

lemma roundHalfEven_near:
  assumes "\<bar>y - of_int n\<bar> < 1 / 2"
  shows "roundHalfEven y = n"
proof (cases "of_int n \<le> y")
  case True
  with assms have "\<lfloor>y\<rfloor> = n" by (intro floor_unique) auto
  with assms True show ?thesis by (simp add: roundHalfEven_def)
next
  case False
  with assms have f: "\<lfloor>y\<rfloor> = n - 1" by (intro floor_unique) auto
  from assms False have "1 / 2 < y - of_int (n - 1)" by auto
  with f show ?thesis by (simp add: roundHalfEven_def)
qed

lemma roundHalfEven_tie:
  assumes "y = of_int n + 1 / 2 \<or> y = of_int n - 1 / 2" and "even n"
  shows "roundHalfEven y = n"
proof -
  from assms(1) show ?thesis
  proof
    assume y: "y = of_int n + 1 / 2"
    then have "\<lfloor>y\<rfloor> = n" by (intro floor_unique) auto
    with y assms(2) show ?thesis by (simp add: roundHalfEven_def)
  next
    assume y: "y = of_int n - 1 / 2"
    then have f: "\<lfloor>y\<rfloor> = n - 1" by (intro floor_unique) auto
    from y have "y - of_int (n - 1) = 1 / 2" by simp
    with f assms(2) show ?thesis by (simp add: roundHalfEven_def)
  qed
qed

lemma fl_scaled:
  fixes j :: nat
  assumes lo: "2 ^ 52 \<le> \<bar>x\<bar> * 2 ^ j" and hi: "\<bar>x\<bar> * 2 ^ j < 2 ^ 53"
  shows "fl x = of_int (roundHalfEven (x * 2 ^ j)) / 2 ^ j"
proof -
  from lo have x0: "x \<noteq> 0" by auto
  then have pos: "0 < \<bar>x\<bar>" by simp
  have p: "2 powr (52 - real j) = 2 ^ 52 / 2 ^ j" "2 powr (53 - real j) = 2 ^ 53 / 2 ^ j"
    by (simp_all add: powr_diff powr_realpow)
  have "2 powr (52 - real j) \<le> \<bar>x\<bar>"
    using lo by (simp add: p field_simps)
  then have l1: "52 - real j \<le> log 2 \<bar>x\<bar>"
    using pos by (simp add: le_log_iff)
  have "\<bar>x\<bar> < 2 powr (53 - real j)"
    using hi by (simp add: p field_simps)
  then have l2: "log 2 \<bar>x\<bar> < 53 - real j"
    using pos by (simp add: log_less_iff)
  have e: "\<lfloor>log 2 \<bar>x\<bar>\<rfloor> = 52 - int j"
    using l1 l2 by (intro floor_unique) simp_all
  have u: "(2::real) powr (- real j) = 1 / 2 ^ j"
    by (simp add: powr_minus powr_realpow inverse_eq_divide)
  show ?thesis
    using x0 by (simp add: fl_def e u Let_def)
qed

lemma fl_nearest:
  fixes j :: nat
  assumes "2 ^ 52 \<le> \<bar>x\<bar> * 2 ^ j" and "\<bar>x\<bar> * 2 ^ j < 2 ^ 53"
    and "\<bar>x * 2 ^ j - of_int n\<bar> < 1 / 2"
  shows "fl x = of_int n / 2 ^ j"
  using fl_scaled [OF assms(1,2)] roundHalfEven_near [OF assms(3)] by simp

lemma fl_tie:
  fixes j :: nat
  assumes "2 ^ 52 \<le> \<bar>x\<bar> * 2 ^ j" and "\<bar>x\<bar> * 2 ^ j < 2 ^ 53"
    and "x * 2 ^ j = of_int n + 1 / 2 \<or> x * 2 ^ j = of_int n - 1 / 2" and "even n"
  shows "fl x = of_int n / 2 ^ j"
  using fl_scaled [OF assms(1,2)] roundHalfEven_tie [OF assms(3,4)] by simp

lemma fl_sqrt_nearest:
  fixes j :: nat
  assumes x: "0 \<le> x" and n: "1 \<le> n"
    and lo: "(2 ^ 52)\<^sup>2 \<le> x * (2 ^ j)\<^sup>2" and hi: "x * (2 ^ j)\<^sup>2 < (2 ^ 53)\<^sup>2"
    and below: "(of_int n - 1 / 2)\<^sup>2 < x * (2 ^ j)\<^sup>2"
    and above: "x * (2 ^ j)\<^sup>2 < (of_int n + 1 / 2)\<^sup>2"
  shows "fl (sqrt x) = of_int n / 2 ^ j"
proof -
  have s: "sqrt x * 2 ^ j = sqrt (x * (2 ^ j)\<^sup>2)"
    by (simp add: real_sqrt_mult)
  have a: "\<bar>sqrt x\<bar> * 2 ^ j = sqrt (x * (2 ^ j)\<^sup>2)"
    using x by (simp add: real_sqrt_mult)
  have 1: "2 ^ 52 \<le> \<bar>sqrt x\<bar> * 2 ^ j"
    unfolding a using lo by (intro real_le_rsqrt)
  have 2: "\<bar>sqrt x\<bar> * 2 ^ j < 2 ^ 53"
    unfolding a using hi by (intro real_less_lsqrt) simp_all
  have b: "of_int n - 1 / 2 < sqrt (x * (2 ^ j)\<^sup>2)"
    using below by (intro real_less_rsqrt)
  have "0 \<le> real_of_int n + 1 / 2" using n by simp
  then have c: "sqrt (x * (2 ^ j)\<^sup>2) < of_int n + 1 / 2"
    using above by (intro real_less_lsqrt) simp_all
  from b c have 3: "\<bar>sqrt x * 2 ^ j - of_int n\<bar> < 1 / 2"
    unfolding s by linarith
  from fl_nearest [OF 1 2 3] show ?thesis .
qed

subsection \<open>Two calls of the vector branches, operation by operation\<close>

text \<open>
  The roundings of the two calls evaluated below, one lemma for each operation the calls
  perform (a decimal literal, a difference, a product, a sum, a quotient or a square root).
  The argument is the exact result of the operation on doubles, the right-hand side the
  double the operation returns.
\<close>

lemma dbl_00: "fl (1 / 10) = 3602879701896397 / 36028797018963968"
  using fl_nearest [of "1 / 10" 56 "7205759403792794"] by simp

lemma dbl_01: "fl (1 / 200) = 5764607523034235 / 1152921504606846976"
  using fl_nearest [of "1 / 200" 60 "5764607523034235"] by simp

lemma dbl_02: "fl (1 / 20) = 3602879701896397 / 72057594037927936"
  using fl_nearest [of "1 / 20" 57 "7205759403792794"] by simp

lemma dbl_03: "fl (1 / 5) = 3602879701896397 / 18014398509481984"
  using fl_nearest [of "1 / 5" 55 "7205759403792794"] by simp

lemma dbl_04: "fl (- 3) = - 3"
  using fl_nearest [of "- 3" 51 "- 6755399441055744"] by simp

lemma dbl_05: "fl (- 4) = - 4"
  using fl_nearest [of "- 4" 50 "- 4503599627370496"] by simp

lemma dbl_06: "fl (36028797018963968 / 3602879701896397) = 10"
  using fl_nearest [of "36028797018963968 / 3602879701896397" 49 "5629499534213120"] by simp

lemma dbl_07: "fl (- 30) = - 30"
  using fl_nearest [of "- 30" 48 "- 8444249301319680"] by simp

lemma dbl_08: "fl (- 40) = - 40"
  using fl_nearest [of "- 40" 47 "- 5629499534213120"] by simp

lemma dbl_09: "fl (- (10808639105689191 / 36028797018963968)) = - (1351079888211149 / 4503599627370496)"
  using fl_tie [of "- (10808639105689191 / 36028797018963968)" 54 "- 5404319552844596"] by simp

lemma dbl_10: "fl (- (3602879701896397 / 9007199254740992)) = - (3602879701896397 / 9007199254740992)"
  using fl_nearest [of "- (3602879701896397 / 9007199254740992)" 54 "- 7205759403792794"] by simp

lemma dbl_11: "fl (- (1351079888211149 / 4503599627370496)) = - (1351079888211149 / 4503599627370496)"
  using fl_nearest [of "- (1351079888211149 / 4503599627370496)" 54 "- 5404319552844596"] by simp

lemma dbl_12: "fl (1825416864328650878587207900201 / 20282409603651670423947251286016) = 1621295865853379 / 18014398509481984"
  using fl_nearest [of "1825416864328650878587207900201 / 20282409603651670423947251286016" 56 "6485183463413516"] by simp

lemma dbl_13: "fl (12980742146337070512478121581609 / 81129638414606681695789005144064) = 1441151880758559 / 9007199254740992"
  using fl_nearest [of "12980742146337070512478121581609 / 81129638414606681695789005144064" 55 "5764607523034236"] by simp

lemma dbl_14: "fl (4503599627370497 / 18014398509481984) = 4503599627370497 / 18014398509481984"
  using fl_nearest [of "4503599627370497 / 18014398509481984" 54 "4503599627370497"] by simp

lemma dbl_15: "fl (sqrt (4503599627370497 / 18014398509481984)) = 1 / 2"
proof -
  have "fl (sqrt (4503599627370497 / 18014398509481984)) = real_of_int 4503599627370496 / 2 ^ 53"
    by (rule fl_sqrt_nearest) (simp_all add: power2_eq_square)
  then show ?thesis by simp
qed

lemma dbl_16: "fl 2 = 2"
  using fl_nearest [of "2" 51 "4503599627370496"] by simp

lemma dbl_17: "fl (- (1351079888211149 / 2251799813685248)) = - (1351079888211149 / 2251799813685248)"
  using fl_nearest [of "- (1351079888211149 / 2251799813685248)" 53 "- 5404319552844596"] by simp

lemma dbl_18: "fl (- (3602879701896397 / 4503599627370496)) = - (3602879701896397 / 4503599627370496)"
  using fl_nearest [of "- (3602879701896397 / 4503599627370496)" 53 "- 7205759403792794"] by simp

lemma dbl_19: "fl (- (4867778304876401892539258330153 / 40564819207303340847894502572032)) = - (4323455642275677 / 36028797018963968)"
  using fl_nearest [of "- (4867778304876401892539258330153 / 40564819207303340847894502572032)" 56 "- 8646911284551354"] by simp

lemma dbl_20: "fl (- (12980742146337070512478121581609 / 81129638414606681695789005144064)) = - (1441151880758559 / 9007199254740992)"
  using fl_nearest [of "- (12980742146337070512478121581609 / 81129638414606681695789005144064)" 55 "- 5764607523034236"] by simp

lemma dbl_21: "fl (- (24923024920967177978031378802095 / 41538374868278621028243970633760768)) = - (5534023222112867 / 9223372036854775808)"
  using fl_nearest [of "- (24923024920967177978031378802095 / 41538374868278621028243970633760768)" 63 "- 5534023222112867"] by simp

lemma dbl_22: "fl (- (8307674973655725992677126267365 / 10384593717069655257060992658440192)) = - (3689348814741911 / 4611686018427387904)"
  using fl_nearest [of "- (8307674973655725992677126267365 / 10384593717069655257060992658440192)" 63 "- 7378697629483822"] by simp

lemma dbl_23: "fl (- (2772545634278546019 / 9223372036854775808)) = - (5415128191950285 / 18014398509481984)"
  using fl_nearest [of "- (2772545634278546019 / 9223372036854775808)" 54 "- 5415128191950285"] by simp

lemma dbl_24: "fl (- (1848363756185697175 / 4611686018427387904)) = - (1805042730650095 / 4503599627370496)"
  using fl_nearest [of "- (1848363756185697175 / 4611686018427387904)" 54 "- 7220170922600380"] by simp

lemma dbl_25: "fl (- (54043195528445955 / 36028797018963968)) = - (3 / 2)"
  using fl_nearest [of "- (54043195528445955 / 36028797018963968)" 52 "- 6755399441055744"] by simp

lemma dbl_26: "fl (- (18014398509481985 / 9007199254740992)) = - 2"
  using fl_nearest [of "- (18014398509481985 / 9007199254740992)" 51 "- 4503599627370496"] by simp

lemma dbl_27: "fl (- (32436725956173261 / 18014398509481984)) = - (8109181489043315 / 4503599627370496)"
  using fl_nearest [of "- (32436725956173261 / 18014398509481984)" 52 "- 8109181489043315"] by simp

lemma dbl_28: "fl (- (10812241985391087 / 4503599627370496)) = - (675765124086943 / 281474976710656)"
  using fl_tie [of "- (10812241985391087 / 4503599627370496)" 51 "- 5406120992695544"] by simp

lemma dbl_29: "fl (65758824422242755513393946189225 / 20282409603651670423947251286016) = 228146752955803 / 70368744177664"
  using fl_nearest [of "65758824422242755513393946189225 / 20282409603651670423947251286016" 51 "7300696094585696"] by simp

lemma dbl_30: "fl (456658502932241470359423085249 / 79228162514264337593543950336) = 1622376909907933 / 281474976710656"
  using fl_nearest [of "456658502932241470359423085249 / 79228162514264337593543950336" 50 "6489507639631732"] by simp

lemma dbl_31: "fl (2534963921731145 / 281474976710656) = 2534963921731145 / 281474976710656"
  using fl_nearest [of "2534963921731145 / 281474976710656" 49 "5069927843462290"] by simp

lemma dbl_32: "fl (sqrt (2534963921731145 / 281474976710656)) = 3378825620434715 / 1125899906842624"
proof -
  have "fl (sqrt (2534963921731145 / 281474976710656)) = real_of_int 6757651240869430 / 2 ^ 51"
    by (rule fl_sqrt_nearest) (simp_all add: power2_eq_square)
  then show ?thesis by simp
qed

lemma dbl_33: "fl (1125899906842624 / 3378825620434715) = 6002798570303893 / 18014398509481984"
  using fl_nearest [of "1125899906842624 / 3378825620434715" 54 "6002798570303893"] by simp

lemma dbl_34: "fl (- (48677783048764005440309390125295 / 81129638414606681695789005144064)) = - (5404319552844595 / 9007199254740992)"
  using fl_nearest [of "- (48677783048764005440309390125295 / 81129638414606681695789005144064)" 53 "- 5404319552844595"] by simp

lemma dbl_35: "fl (- (4056481920730334286925663369099 / 5070602400912917605986812821504)) = - (3602879701896397 / 4503599627370496)"
  using fl_nearest [of "- (4056481920730334286925663369099 / 5070602400912917605986812821504)" 53 "- 7205759403792794"] by simp

lemma dbl_36: "fl (- (19471113219505603967277331424215 / 162259276829213363391578010288128)) = - (1080863910568919 / 9007199254740992)"
  using fl_nearest [of "- (19471113219505603967277331424215 / 162259276829213363391578010288128)" 56 "- 8646911284551352"] by simp

lemma dbl_37: "fl (18692268690725386726115265808329 / 1298074214633706907132624082305024) = 8301034833169301 / 576460752303423488"
  using fl_nearest [of "18692268690725386726115265808329 / 1298074214633706907132624082305024" 59 "8301034833169301"] by simp

lemma dbl_38: "fl (2076918743413931858457251756481 / 81129638414606681695789005144064) = 461168601842739 / 18014398509481984"
  using fl_nearest [of "2076918743413931858457251756481 / 81129638414606681695789005144064" 58 "7378697629483824"] by simp

lemma dbl_39: "fl (23058430092136949 / 576460752303423488) = 5764607523034237 / 144115188075855872"
  using fl_nearest [of "23058430092136949 / 576460752303423488" 57 "5764607523034237"] by simp

lemma dbl_40: "fl (sqrt (5764607523034237 / 144115188075855872)) = 7205759403792795 / 36028797018963968"
proof -
  have "fl (sqrt (5764607523034237 / 144115188075855872)) = real_of_int 7205759403792795 / 2 ^ 55"
    by (rule fl_sqrt_nearest) (simp_all add: power2_eq_square)
  then show ?thesis by simp
qed

lemma dbl_41: "fl (1168266793170336129950248828561 / 81129638414606681695789005144064) = 4150517416584649 / 288230376151711744"
  using fl_nearest [of "1168266793170336129950248828561 / 81129638414606681695789005144064" 59 "8301034833169298"] by simp

lemma dbl_42: "fl (11529215046068473 / 288230376151711744) = 1441151880758559 / 36028797018963968"
  using fl_tie [of "11529215046068473 / 288230376151711744" 57 "5764607523034236"] by simp

lemma dbl_43: "fl (sqrt (1441151880758559 / 36028797018963968)) = 3602879701896397 / 18014398509481984"
proof -
  have "fl (sqrt (1441151880758559 / 36028797018963968)) = real_of_int 7205759403792794 / 2 ^ 55"
    by (rule fl_sqrt_nearest) (simp_all add: power2_eq_square)
  then show ?thesis by simp
qed

lemma dbl_44: "fl (1 / 2) = 1 / 2"
  using fl_nearest [of "1 / 2" 53 "4503599627370496"] by simp

lemma dbl_45: "fl (1 / 100) = 5764607523034235 / 576460752303423488"
  using fl_nearest [of "1 / 100" 59 "5764607523034235"] by simp

lemma dbl_46: "fl 1 = 1"
  using fl_nearest [of "1" 52 "4503599627370496"] by simp

lemma dbl_47: "fl 9 = 9"
  using fl_nearest [of "9" 49 "5066549580791808"] by simp

lemma dbl_48: "fl 18 = 18"
  using fl_nearest [of "18" 48 "5066549580791808"] by simp

lemma dbl_49: "fl (sqrt 18) = 4776788754394329 / 1125899906842624"
proof -
  have "fl (sqrt 18) = real_of_int 4776788754394329 / 2 ^ 50"
    by (rule fl_sqrt_nearest) (simp_all add: power2_eq_square)
  then show ?thesis by simp
qed

lemma dbl_50: "fl (1125899906842624 / 4776788754394329) = 8492068896701031 / 36028797018963968"
  using fl_nearest [of "1125899906842624 / 4776788754394329" 55 "8492068896701031"] by simp

lemma dbl_51: "fl (- (25476206690103093 / 36028797018963968)) = - (6369051672525773 / 9007199254740992)"
  using fl_nearest [of "- (25476206690103093 / 36028797018963968)" 53 "- 6369051672525773"] by simp

lemma dbl_52: "fl (- (22946926991272405753130958339881 / 324518553658426726783156020576256)) = - (5095241338020619 / 72057594037927936)"
  using fl_nearest [of "- (22946926991272405753130958339881 / 324518553658426726783156020576256)" 56 "- 5095241338020619"] by simp

lemma dbl_53: "fl (- (3 / 2)) = - (3 / 2)"
  using fl_nearest [of "- (3 / 2)" 52 "- 6755399441055744"] by simp

lemma dbl_54: "fl (- (29372066548828681803723872891465 / 41538374868278621028243970633760768)) = - (815238614083299 / 1152921504606846976)"
  using fl_nearest [of "- (29372066548828681803723872891465 / 41538374868278621028243970633760768)" 63 "- 6521908912666392"] by simp

lemma dbl_55: "fl (- (1730197495524353763 / 1152921504606846976)) = - (6758583966892007 / 4503599627370496)"
  using fl_nearest [of "- (1730197495524353763 / 1152921504606846976)" 52 "- 6758583966892007"] by simp

lemma dbl_56: "fl (- (10808639105689191 / 18014398509481984)) = - (1351079888211149 / 2251799813685248)"
  using fl_tie [of "- (10808639105689191 / 18014398509481984)" 53 "- 5404319552844596"] by simp

lemma dbl_57: "fl (- (9460743743314305 / 4503599627370496)) = - (73912060494643 / 35184372088832)"
  using fl_tie [of "- (9460743743314305 / 4503599627370496)" 51 "- 4730371871657152"] by simp

lemma dbl_58: "fl (5462992686563766433831697449 / 1237940039285380274899124224) = 4968562904254001 / 1125899906842624"
  using fl_nearest [of "5462992686563766433831697449 / 1237940039285380274899124224" 50 "4968562904254001"] by simp

lemma dbl_59: "fl (4968562904254001 / 1125899906842624) = 4968562904254001 / 1125899906842624"
  using fl_nearest [of "4968562904254001 / 1125899906842624" 50 "4968562904254001"] by simp

lemma dbl_60: "fl (4968562904254001 / 562949953421312) = 4968562904254001 / 562949953421312"
  using fl_nearest [of "4968562904254001 / 562949953421312" 49 "4968562904254001"] by simp

lemma dbl_61: "fl (sqrt (4968562904254001 / 562949953421312)) = 3344878027982873 / 1125899906842624"
proof -
  have "fl (sqrt (4968562904254001 / 562949953421312)) = real_of_int 6689756055965746 / 2 ^ 51"
    by (rule fl_sqrt_nearest) (simp_all add: power2_eq_square)
  then show ?thesis by simp
qed

lemma dbl_62: "fl (1125899906842624 / 3344878027982873) = 3031860868164895 / 9007199254740992"
  using fl_nearest [of "1125899906842624 / 3344878027982873" 54 "6063721736329790"] by simp

lemma dbl_63: "fl (- (224091083899144564545388157485 / 316912650057057350374175801344)) = - (6369051672525773 / 9007199254740992)"
  using fl_nearest [of "- (224091083899144564545388157485 / 316912650057057350374175801344)" 53 "- 6369051672525773"] by simp

lemma dbl_64: "fl (25961484292674147806296869143161 / 5192296858534827628530496329220096) = 5764607523034237 / 1152921504606846976"
  using fl_nearest [of "25961484292674147806296869143161 / 5192296858534827628530496329220096" 60 "5764607523034237"] by simp

lemma dbl_65: "fl (5764607523034237 / 1152921504606846976) = 5764607523034237 / 1152921504606846976"
  using fl_nearest [of "5764607523034237 / 1152921504606846976" 60 "5764607523034237"] by simp

lemma dbl_66: "fl (5764607523034237 / 576460752303423488) = 5764607523034237 / 576460752303423488"
  using fl_nearest [of "5764607523034237 / 576460752303423488" 59 "5764607523034237"] by simp

lemma dbl_67: "fl (sqrt (5764607523034237 / 576460752303423488)) = 7205759403792795 / 72057594037927936"
proof -
  have "fl (sqrt (5764607523034237 / 576460752303423488)) = real_of_int 7205759403792795 / 2 ^ 56"
    by (rule fl_sqrt_nearest) (simp_all add: power2_eq_square)
  then show ?thesis by simp
qed

lemmas dbl_steps =
  dbl_00 dbl_01 dbl_02 dbl_03 dbl_04 dbl_05 dbl_06 dbl_07
  dbl_08 dbl_09 dbl_10 dbl_11 dbl_12 dbl_13 dbl_14 dbl_15
  dbl_16 dbl_17 dbl_18 dbl_19 dbl_20 dbl_21 dbl_22 dbl_23
  dbl_24 dbl_25 dbl_26 dbl_27 dbl_28 dbl_29 dbl_30 dbl_31
  dbl_32 dbl_33 dbl_34 dbl_35 dbl_36 dbl_37 dbl_38 dbl_39
  dbl_40 dbl_41 dbl_42 dbl_43 dbl_44 dbl_45 dbl_46 dbl_47
  dbl_48 dbl_49 dbl_50 dbl_51 dbl_52 dbl_53 dbl_54 dbl_55
  dbl_56 dbl_57 dbl_58 dbl_59 dbl_60 dbl_61 dbl_62 dbl_63
  dbl_64 dbl_65 dbl_66 dbl_67

lemma fl_0: "fl 0 = 0"
  by (simp add: fl_def)

lemma horizontalPosition_controller_value:
  "horizontalPosition_controller =
     \<lparr>kP = 3602879701896397 / 2 ^ 55, kI = 5764607523034235 / 2 ^ 60,
      kD = 3602879701896397 / 2 ^ 56, setpoint = V2 0 0, integral = V2 0 0,
      previousError = V2 0 0, outputValue = V2 0 0,
      maxOutput = 3602879701896397 / 2 ^ 54, minOutput = - (3602879701896397 / 2 ^ 54)\<rparr>"
  by (simp add: horizontalPosition_controller_def new_pidControllers_def double_literals_def
                dbl_steps)

lemma attitude_controller_value:
  "attitude_controller =
     \<lparr>kP = 1 / 2, kI = 5764607523034235 / 2 ^ 59,
      kD = 3602879701896397 / 2 ^ 54, setpoint = V3 0 0 0, integral = V3 0 0 0,
      previousError = V3 0 0 0, outputValue = V3 0 0 0,
      maxOutput = 3602879701896397 / 2 ^ 55, minOutput = - (3602879701896397 / 2 ^ 55)\<rparr>"
  by (simp add: attitude_controller_def new_pidControllers_def double_literals_def
                dbl_steps)

lemma updatePID_vector2_call:
  "updatePID_vector2 horizontalPosition_controller (V2 3 4) (fl (1 / 10)) =
     Some (horizontalPosition_controller
             \<lparr>integral := V2 (- (4323455642275677 / 2 ^ 55)) (- (1441151880758559 / 2 ^ 53)),
              outputValue := V2 (- (1080863910568919 / 2 ^ 53)) (- (1441151880758559 / 2 ^ 53)),
              previousError := V2 (- 3) (- 4)\<rparr>)"
  unfolding horizontalPosition_controller_value
  by (simp add: updatePID_vector2_def Let_def add2_fl_def sub2_fl_def multiplyScalar2_fl_def
                length2_fl_def divideScalar2_fl_def normalize2_fl_def V2_def dbl_steps fl_0)

lemma updatePID_vector3_call:
  "updatePID_vector3 attitude_controller (V3 0 3 3) 1 =
     Some (attitude_controller
             \<lparr>integral := V3 0 (- (5095241338020619 / 2 ^ 56)) (- (5095241338020619 / 2 ^ 56)),
              outputValue := V3 0 (- (5095241338020619 / 2 ^ 56)) (- (5095241338020619 / 2 ^ 56)),
              previousError := V3 0 (- 3) (- 3)\<rparr>)"
  unfolding attitude_controller_value
  by (simp add: updatePID_vector3_def Let_def add3_fl_def sub3_fl_def multiplyScalar3_fl_def
                length3_fl_def divideScalar3_fl_def normalize3_fl_def V3_def dbl_steps fl_0)

lemma length2_fl_integral:
  "length2_fl (V2 (- (4323455642275677 / 2 ^ 55)) (- (1441151880758559 / 2 ^ 53)))
     = 7205759403792795 / 2 ^ 55"
  by (simp add: length2_fl_def V2_def dbl_steps)

lemma length3_fl_integral:
  "length3_fl (V3 0 (- (5095241338020619 / 2 ^ 56)) (- (5095241338020619 / 2 ^ 56)))
     = 7205759403792795 / 2 ^ 56"
  by (simp add: length3_fl_def V3_def dbl_steps fl_0)

lemma length2_integral:
  "3602879701896397 / 2 ^ 54
     < length2 (V2 (- (4323455642275677 / 2 ^ 55)) (- (1441151880758559 / 2 ^ 53)))"
  unfolding length2_def by (rule real_less_rsqrt) (simp add: V2_def power2_eq_square)

lemma length2_output:
  "3602879701896397 / 2 ^ 54
     < length2 (V2 (- (1080863910568919 / 2 ^ 53)) (- (1441151880758559 / 2 ^ 53)))"
  unfolding length2_def by (rule real_less_rsqrt) (simp add: V2_def power2_eq_square)

lemma length3_integral:
  "3602879701896397 / 2 ^ 55
     < length3 (V3 0 (- (5095241338020619 / 2 ^ 56)) (- (5095241338020619 / 2 ^ 56)))"
  unfolding length3_def by (rule real_less_rsqrt) (simp add: V3_def power2_eq_square)

text \<open>
  Claim C3, evaluated on the first \<open>updatePID\<close> call of a run, for the two vector
  controllers as the constructor builds them.

  The horizontal-position controller (\<open>maxOutput\<close> the double 0.2) is called with the
  measured value \<open>Vector2(3, 4)\<close> and \<open>deltaTime\<close> the double 0.1.  The integral
  \<open>(-0.30000000000000004, -0.4)\<close> has length 0.5, so the branch that limits it is taken, and
  \<open>normalize().multiplyScalar(maxOutput)\<close> leaves the integral
  \<open>(-0.12000000000000002, -0.16000000000000003)\<close>.  Its length as \<open>length()\<close> computes it is
  \<open>maxOutput + 2 ^ -55\<close>, the double 0.20000000000000004; the exact Euclidean length of the
  integral is above \<open>maxOutput\<close> too, and so is that of the output
  \<open>(-0.12, -0.16000000000000003)\<close> the call returns.

  The attitude controller (\<open>maxOutput\<close> the double 0.1) is called with \<open>Vector3(0, 3, 3)\<close>
  and \<open>deltaTime\<close> 1.  Integral and output both end as
  \<open>(0, -0.07071067811865477, -0.07071067811865477)\<close>, of computed length
  \<open>maxOutput + 2 ^ -56\<close>, the double 0.10000000000000002, and of exact length above
  \<open>maxOutput\<close>.

  So after one call with a positive time step the magnitude of the integral, and that of the
  output, exceeds the configured bound in both vector branches.
\<close>

theorem updatePID_vector_clamp_exceeds_maxOutput:
  "updatePID_vector2 horizontalPosition_controller (V2 3 4) (fl (1 / 10)) =
     Some (horizontalPosition_controller
             \<lparr>integral := V2 (- (4323455642275677 / 2 ^ 55)) (- (1441151880758559 / 2 ^ 53)),
              outputValue := V2 (- (1080863910568919 / 2 ^ 53)) (- (1441151880758559 / 2 ^ 53)),
              previousError := V2 (- 3) (- 4)\<rparr>)
   \<and> maxOutput horizontalPosition_controller = 3602879701896397 / 2 ^ 54
   \<and> length2_fl (V2 (- (4323455642275677 / 2 ^ 55)) (- (1441151880758559 / 2 ^ 53)))
       = 3602879701896397 / 2 ^ 54 + 1 / 2 ^ 55
   \<and> maxOutput horizontalPosition_controller
       < length2 (V2 (- (4323455642275677 / 2 ^ 55)) (- (1441151880758559 / 2 ^ 53)))
   \<and> maxOutput horizontalPosition_controller
       < length2 (V2 (- (1080863910568919 / 2 ^ 53)) (- (1441151880758559 / 2 ^ 53)))
   \<and> updatePID_vector3 attitude_controller (V3 0 3 3) 1 =
     Some (attitude_controller
             \<lparr>integral := V3 0 (- (5095241338020619 / 2 ^ 56)) (- (5095241338020619 / 2 ^ 56)),
              outputValue := V3 0 (- (5095241338020619 / 2 ^ 56)) (- (5095241338020619 / 2 ^ 56)),
              previousError := V3 0 (- 3) (- 3)\<rparr>)
   \<and> maxOutput attitude_controller = 3602879701896397 / 2 ^ 55
   \<and> length3_fl (V3 0 (- (5095241338020619 / 2 ^ 56)) (- (5095241338020619 / 2 ^ 56)))
       = 3602879701896397 / 2 ^ 55 + 1 / 2 ^ 56
   \<and> maxOutput attitude_controller
       < length3 (V3 0 (- (5095241338020619 / 2 ^ 56)) (- (5095241338020619 / 2 ^ 56)))"
proof (intro conjI)
  show "maxOutput horizontalPosition_controller = 3602879701896397 / 2 ^ 54"
    by (simp add: horizontalPosition_controller_value)
  then show
    "maxOutput horizontalPosition_controller
       < length2 (V2 (- (4323455642275677 / 2 ^ 55)) (- (1441151880758559 / 2 ^ 53)))"
    "maxOutput horizontalPosition_controller
       < length2 (V2 (- (1080863910568919 / 2 ^ 53)) (- (1441151880758559 / 2 ^ 53)))"
    using length2_integral length2_output by simp_all
  show "maxOutput attitude_controller = 3602879701896397 / 2 ^ 55"
    by (simp add: attitude_controller_value)
  then show
    "maxOutput attitude_controller
       < length3 (V3 0 (- (5095241338020619 / 2 ^ 56)) (- (5095241338020619 / 2 ^ 56)))"
    using length3_integral by simp
  show "length2_fl (V2 (- (4323455642275677 / 2 ^ 55)) (- (1441151880758559 / 2 ^ 53)))
       = 3602879701896397 / 2 ^ 54 + 1 / 2 ^ 55"
    using length2_fl_integral by simp
  show "length3_fl (V3 0 (- (5095241338020619 / 2 ^ 56)) (- (5095241338020619 / 2 ^ 56)))
       = 3602879701896397 / 2 ^ 55 + 1 / 2 ^ 56"
    using length3_fl_integral by simp
qed (rule updatePID_vector2_call updatePID_vector3_call)+

section \<open>Thrust and propellant\<close>

lemma setFromEuler_zero:
  "setFromEuler \<lparr>vx = 0, vy = 0, vz = 0\<rparr> = \<lparr>qx = 0, qy = 0, qz = 0, qw = 1\<rparr>"
  by (simp add: setFromEuler_def)

lemma applyQuaternion_identity:
  "applyQuaternion v \<lparr>qx = 0, qy = 0, qz = 0, qw = 1\<rparr> = \<lparr>vx = vx v, vy = vy v, vz = vz v\<rparr>"
  by (simp add: applyQuaternion_def V3_def)

lemma normalize3_up:
  "normalize3 \<lparr>vx = 0, vy = 1, vz = 0\<rparr> = \<lparr>vx = 0, vy = 1, vz = 0\<rparr>"
  by (simp add: normalize3_def divideScalar3_def multiplyScalar3_def length3_def V3_def)

text \<open>
  Claim C1, as stated, fails.  The booster as \<open>reset()\<close> leaves it, with its propellant used
  up (\<open>fuel = 0\<close>) and full throttle: the thrust contribution is 72 MN upwards, and the net
  force of \<open>calculateForces\<close> is that thrust less the weight of the dry mass.
\<close>

theorem thrust_without_propellant_counterexample:
  "fuel ((reset_vehicle SuperHeavy new_superHeavy)\<lparr>fuel := 0, throttle := 1\<rparr>) = 0 \<and>
   thrustForce ((reset_vehicle SuperHeavy new_superHeavy)\<lparr>fuel := 0, throttle := 1\<rparr>)
     = V3 0 72000000 0 \<and>
   map_option fst (calculateForces (reset new_ImprovedPhysicsEngine)
         ((reset_vehicle SuperHeavy new_superHeavy)\<lparr>fuel := 0, throttle := 1\<rparr>) (1 / 10))
     = Some (V3 0 70038000 0)"
proof -
  let ?v = "(reset_vehicle SuperHeavy new_superHeavy)\<lparr>fuel := 0, throttle := 1\<rparr>"
  have thrust: "thrustForce ?v = V3 0 72000000 0"
    by (simp add: thrustForce_def reset_vehicle_def new_superHeavy_def gimbalOrZero_def
        setFromEuler_zero applyQuaternion_identity normalize3_up multiplyScalar3_def
        V3_def V2_def Let_def)
  have gravity: "gravityForce (reset new_ImprovedPhysicsEngine) ?v = V3 0 (- 1962000) 0"
    by (simp add: gravityForce_def reset_def new_ImprovedPhysicsEngine_def reset_vehicle_def
        new_superHeavy_def)
  have drag: "dragForce (reset new_ImprovedPhysicsEngine) ?v = V3 0 0 0"
    by (simp add: dragForce_def reset_vehicle_def lengthSq3_def V3_def)
  have fin: "finForce (reset new_ImprovedPhysicsEngine) ?v = Some (V3 0 0 0)"
    by (simp add: finForce_def reset_vehicle_def)
  have wind: "windForce (reset new_ImprovedPhysicsEngine) ?v = V3 0 0 0"
    by (simp add: windForce_def reset_def)
  have "map_option fst (calculateForces (reset new_ImprovedPhysicsEngine) ?v (1 / 10))
        = Some (V3 0 70038000 0)"
    by (simp add: calculateForces_def thrust gravity drag fin wind add3_def) (simp add: V3_def)
  with thrust show ?thesis by simp
qed

text \<open>
  Claim C1, amended.  The thrust contribution of the force model is zero whenever the throttle
  is not positive, and it does not depend on the propellant mass at all: the force model
  tests the throttle only.
\<close>

theorem thrust_gated_by_throttle_only:
  "(throttle v \<le> 0 \<longrightarrow> thrustForce v = V3 0 0 0) \<and> thrustForce (v\<lparr>fuel := f\<rparr>) = thrustForce v"
  by (simp add: thrustForce_def gimbalOrZero_def)

theorem thrust_gated_by_throttle_only_witness:
  "throttle new_superHeavy \<le> 0 \<and> thrustForce new_superHeavy = V3 0 0 0 \<and>
   thrustForce (new_superHeavy\<lparr>fuel := 0\<rparr>) = thrustForce new_superHeavy"
  using thrust_gated_by_throttle_only [of new_superHeavy 0]
  by (simp add: new_superHeavy_def)

section \<open>Lemmas on the force model and the integrators\<close>

lemma V3_sel [simp]: "vx (V3 a b c) = a" "vy (V3 a b c) = b" "vz (V3 a b c) = c"
  by (simp_all add: V3_def)

lemma vehicleOf_setVehicle: "vehicleOf (setVehicle e i v) j = (if i = j then v else vehicleOf e j)"
  by (cases i; cases j) (simp_all add: vehicleOf_def setVehicle_def)

lemma finForce_vy: "finForce e v = Some f \<Longrightarrow> vy f = 0"
  by (auto simp: finForce_def split: option.splits if_splits)

lemma windForce_vy: "vy (windForce e v) = 0"
  by (simp add: windForce_def add3_def multiplyScalar3_def Let_def)

lemma calculateForces_defined:
  "gridFinDeflection v \<noteq> None \<Longrightarrow> \<exists>forces v1. calculateForces e v dt = Some (forces, v1)"
  by (auto simp: calculateForces_def finForce_def split: option.splits)

lemma calculateForces_vertical:
  assumes "calculateForces e v dt = Some (forces, v1)"
  shows "vy forces = vy (thrustForce v) + vy (dragForce e v) - gravity e * (mass v + fuel v)"
    and "mass v1 = mass v" and "fuel v1 = fuel v" and "velocity v1 = velocity v"
    and "position v1 = position v" and "throttle v1 = throttle v" and "maxThrust v1 = maxThrust v"
  using assms finForce_vy [of e v] windForce_vy [of e v]
  by (auto simp: calculateForces_def add3_def gravityForce_def split: option.splits)

lemma setVehicle_env:
  "gravity (setVehicle e i v) = gravity e" "atmosphericDensity (setVehicle e i v) = atmosphericDensity e"
  "windSpeed (setVehicle e i v) = windSpeed e"
  by (cases i; simp add: setVehicle_def)+

lemma integrate_fields:
  "mass (integrate v f m dt) = mass v" "fuel (integrate v f m dt) = fuel v"
  "throttle (integrate v f m dt) = throttle v"
  "velocity (integrate v f m dt) = add3 (velocity v) (multiplyScalar3 (divideForces f m) dt)"
  "position (integrate v f m dt) =
     add3 (position v) (multiplyScalar3 (add3 (velocity v) (multiplyScalar3 (divideForces f m) dt)) dt)"
  "acceleration (integrate v f m dt) = divideForces f m"
  by (simp_all add: integrate_def Let_def)

lemma vehicleOf_frame:
  "vehicleOf (e\<lparr>landingPhase := p\<rparr>) j = vehicleOf e j"
  "vehicleOf (updateLandingControl_engine lc e) j = vehicleOf e j"
  by (simp_all add: vehicleOf_def updateLandingControl_engine_def split: vehicle_id.split)

lemma update_vehicle_inactive: "\<not> active (vehicleOf e i) \<Longrightarrow> update_vehicle e i dt lc = Some e"
  by (simp add: update_vehicle_def)

lemma update_vehicle_active:
  assumes act: "active (vehicleOf e i)"
    and gf: "gridFinDeflection (vehicleOf e i) \<noteq> None"
    and m: "mass (vehicleOf e i) + fuel (vehicleOf e i) \<noteq> 0"
  obtains forces v1 e' where
    "calculateForces e (vehicleOf e i) dt = Some (forces, v1)"
    "update_vehicle e i dt lc = Some e'"
    "gravity e' = gravity e" "atmosphericDensity e' = atmosphericDensity e" "windSpeed e' = windSpeed e"
    "\<And>j. j \<noteq> i \<Longrightarrow> vehicleOf e' j = vehicleOf e j"
    "velocity (vehicleOf e' i) =
       (let w = add3 (velocity (vehicleOf e i))
                     (multiplyScalar3 (divideForces forces (mass (vehicleOf e i) + fuel (vehicleOf e i))) dt)
        in if vy (position (vehicleOf e i)) + vy w * dt < 0 then V3 0 0 0 else w)"
    "vy (position (vehicleOf e' i)) =
       (let w = add3 (velocity (vehicleOf e i))
                     (multiplyScalar3 (divideForces forces (mass (vehicleOf e i) + fuel (vehicleOf e i))) dt)
        in if vy (position (vehicleOf e i)) + vy w * dt < 0 then 0
           else vy (position (vehicleOf e i)) + vy w * dt)"
proof -
  from calculateForces_defined [OF gf]
  obtain forces v1 where cf: "calculateForces e (vehicleOf e i) dt = Some (forces, v1)" by blast
  note fr = calculateForces_vertical [OF cf]
  let ?landing = "landingPhase e \<noteq> PhaseNone \<and> i = SuperHeavy"
  let ?e2 = "if ?landing then updateLandingControl_engine lc e else e"
  let ?v2 = "if ?landing then updateLandingControl_vehicle lc v1 else v1"
  have v2: "mass ?v2 = mass (vehicleOf e i)" "fuel ?v2 = fuel (vehicleOf e i)"
    "velocity ?v2 = velocity (vehicleOf e i)" "position ?v2 = position (vehicleOf e i)"
    using fr by (simp_all add: updateLandingControl_vehicle_def)
  have e2: "gravity ?e2 = gravity e" "atmosphericDensity ?e2 = atmosphericDensity e"
    "windSpeed ?e2 = windSpeed e" "\<And>j. vehicleOf ?e2 j = vehicleOf e j"
    by (simp_all add: vehicleOf_frame) (simp_all add: updateLandingControl_engine_def)
  let ?m = "mass (vehicleOf e i) + fuel (vehicleOf e i)"
  let ?v3 = "integrate ?v2 forces ?m dt"
  let ?v4 = "if throttle ?v3 > 0 then ?v3\<lparr>fuel := burnFuel ?v3 dt\<rparr> else ?v3"
  let ?e' = "if vy (position ?v4) < 0
             then setVehicle (if landingPhase ?e2 = Final then ?e2\<lparr>landingPhase := Touchdown\<rparr> else ?e2)
                    i (groundStop ?v4)
             else setVehicle ?e2 i ?v4"
  have upd: "update_vehicle e i dt lc = Some ?e'"
    using act m cf v2 by (simp add: update_vehicle_def Let_def)
  have v4: "velocity ?v4 = velocity ?v3" "position ?v4 = position ?v3"
    by simp_all
  have env: "gravity ?e' = gravity e" "atmosphericDensity ?e' = atmosphericDensity e"
    "windSpeed ?e' = windSpeed e"
    using e2(1-3) by (simp_all add: setVehicle_env)
  have other: "\<And>j. j \<noteq> i \<Longrightarrow> vehicleOf ?e' j = vehicleOf e j"
    by (simp add: vehicleOf_setVehicle vehicleOf_frame)
  have vel: "velocity (vehicleOf ?e' i) =
       (let w = add3 (velocity (vehicleOf e i)) (multiplyScalar3 (divideForces forces ?m) dt)
        in if vy (position (vehicleOf e i)) + vy w * dt < 0 then V3 0 0 0 else w)"
    using v2 by (simp add: vehicleOf_setVehicle v4 integrate_fields Let_def groundStop_def
        add3_def multiplyScalar3_def)
  have pos: "vy (position (vehicleOf ?e' i)) =
       (let w = add3 (velocity (vehicleOf e i)) (multiplyScalar3 (divideForces forces ?m) dt)
        in if vy (position (vehicleOf e i)) + vy w * dt < 0 then 0
           else vy (position (vehicleOf e i)) + vy w * dt)"
    using v2 by (simp add: vehicleOf_setVehicle v4 integrate_fields Let_def groundStop_def
        add3_def multiplyScalar3_def)
  from that [OF cf upd env other vel pos] show thesis .
qed

lemma update_vehicle_total:
  assumes gf: "gridFinDeflection (vehicleOf e i) \<noteq> None"
    and m: "mass (vehicleOf e i) + fuel (vehicleOf e i) \<noteq> 0"
  shows "\<exists>e'. update_vehicle e i dt lc = Some e' \<and> gravity e' = gravity e \<and>
           atmosphericDensity e' = atmosphericDensity e \<and> windSpeed e' = windSpeed e \<and>
           (\<forall>j. j \<noteq> i \<longrightarrow> vehicleOf e' j = vehicleOf e j)"
proof (cases "active (vehicleOf e i)")
  case True
  from update_vehicle_active [OF True gf m, of dt lc] show ?thesis by metis
next
  case False
  then show ?thesis by (simp add: update_vehicle_inactive)
qed

lemma updateWind_frame:
  "vehicleOf (updateWind e dt r) j = vehicleOf e j" "gravity (updateWind e dt r) = gravity e"
  "atmosphericDensity (updateWind e dt r) = atmosphericDensity e"
  "windSpeed (updateWind e dt r) = windSpeed e"
  "starship (updateWind e dt r) = starship e" "superHeavy (updateWind e dt r) = superHeavy e"
  by (simp_all add: updateWind_def vehicleOf_def split: vehicle_id.split)

lemma vehicleOf_simps: "vehicleOf e Starship = starship e" "vehicleOf e SuperHeavy = superHeavy e"
  by (simp_all add: vehicleOf_def)

lemma update_reduces:
  assumes ws: "well_formed_vehicle (starship e)" and wb: "well_formed_vehicle (superHeavy e)"
  obtains e0 e1 e' where
    "update e deltaTime r lc = Some e'"
    "update_vehicle e0 i (min deltaTime 0.1) lc = Some e1"
    "vehicleOf e' i = vehicleOf e1 i"
    "vehicleOf e0 i = vehicleOf e i"
    "gravity e0 = gravity e" "atmosphericDensity e0 = atmosphericDensity e"
    "windSpeed e0 = windSpeed e"
proof -
  let ?dt = "min deltaTime 0.1"
  let ?ew = "updateWind e ?dt r"
  have s: "gridFinDeflection (vehicleOf ?ew Starship) \<noteq> None"
    "mass (vehicleOf ?ew Starship) + fuel (vehicleOf ?ew Starship) \<noteq> 0"
    using ws by (simp_all add: updateWind_frame vehicleOf_simps well_formed_vehicle_def)
  from update_vehicle_total [OF s, of ?dt lc]
  obtain e2 where e2: "update_vehicle ?ew Starship ?dt lc = Some e2" "gravity e2 = gravity ?ew"
    "atmosphericDensity e2 = atmosphericDensity ?ew" "windSpeed e2 = windSpeed ?ew"
    "vehicleOf e2 SuperHeavy = vehicleOf ?ew SuperHeavy"
    by auto
  have b: "gridFinDeflection (vehicleOf e2 SuperHeavy) \<noteq> None"
    "mass (vehicleOf e2 SuperHeavy) + fuel (vehicleOf e2 SuperHeavy) \<noteq> 0"
    using wb e2(5) by (simp_all add: updateWind_frame vehicleOf_simps well_formed_vehicle_def)
  from update_vehicle_total [OF b, of ?dt lc]
  obtain e3 where e3: "update_vehicle e2 SuperHeavy ?dt lc = Some e3"
    "vehicleOf e3 Starship = vehicleOf e2 Starship"
    by auto
  have upd: "update e deltaTime r lc = Some e3"
    using e2(1) e3(1) by (simp add: update_def Let_def)
  show thesis
  proof (cases i)
    case Starship
    show thesis
      by (rule that [of e3 ?ew e2])
        (use upd e2 e3 Starship in \<open>simp_all add: updateWind_frame\<close>)
  next
    case SuperHeavy
    show thesis
      by (rule that [of e3 e2 e3])
        (use upd e2 e3 SuperHeavy in \<open>simp_all add: updateWind_frame\<close>)
  qed
qed

lemma updateVehiclePhysics_moving:
  assumes gf: "gridFinDeflection (vehicleOf e i) \<noteq> None"
    and m: "0 < mass (vehicleOf e i) + fuel (vehicleOf e i)"
  obtains forces v1 e' where
    "calculateForces e (vehicleOf e i) (min deltaTime 0.1) = Some (forces, v1)"
    "updateVehiclePhysics e i deltaTime enginesOn = Some e'"
    "velocity (vehicleOf e' i) =
       (let w = add3 (velocity (vehicleOf e i))
                     (multiplyScalar3 (divideForces forces (mass (vehicleOf e i) + fuel (vehicleOf e i)))
                        (min deltaTime 0.1))
        in if vy (position (vehicleOf e i)) + vy w * min deltaTime 0.1 < 0 then V3 0 0 0 else w)"
    "vy (position (vehicleOf e' i)) =
       (let w = add3 (velocity (vehicleOf e i))
                     (multiplyScalar3 (divideForces forces (mass (vehicleOf e i) + fuel (vehicleOf e i)))
                        (min deltaTime 0.1))
        in if vy (position (vehicleOf e i)) + vy w * min deltaTime 0.1 < 0 then 0
           else vy (position (vehicleOf e i)) + vy w * min deltaTime 0.1)"
proof -
  let ?dt = "min deltaTime 0.1"
  from calculateForces_defined [OF gf]
  obtain forces v1 where cf: "calculateForces e (vehicleOf e i) ?dt = Some (forces, v1)" by blast
  note fr = calculateForces_vertical [OF cf]
  let ?m = "mass (vehicleOf e i) + fuel (vehicleOf e i)"
  let ?v3 = "integrate v1 forces ?m ?dt"
  let ?v4 = "if enginesOn \<and> throttle ?v3 > 0 then ?v3\<lparr>fuel := burnFuel ?v3 ?dt\<rparr> else ?v3"
  let ?e' = "if vy (position ?v4) < 0
             then setVehicle (if i = SuperHeavy \<and> landingPhase e = Final
                              then e\<lparr>landingPhase := Touchdown\<rparr> else e) i (groundStop ?v4)
             else setVehicle e i ?v4"
  have upd: "updateVehiclePhysics e i deltaTime enginesOn = Some ?e'"
    using m cf fr by (simp add: updateVehiclePhysics_def Let_def)
  have v4: "velocity ?v4 = velocity ?v3" "position ?v4 = position ?v3"
    by simp_all
  have vel: "velocity (vehicleOf ?e' i) =
       (let w = add3 (velocity (vehicleOf e i)) (multiplyScalar3 (divideForces forces ?m) ?dt)
        in if vy (position (vehicleOf e i)) + vy w * ?dt < 0 then V3 0 0 0 else w)"
    using fr by (simp add: vehicleOf_setVehicle v4 integrate_fields Let_def groundStop_def
        add3_def multiplyScalar3_def)
  have pos: "vy (position (vehicleOf ?e' i)) =
       (let w = add3 (velocity (vehicleOf e i)) (multiplyScalar3 (divideForces forces ?m) ?dt)
        in if vy (position (vehicleOf e i)) + vy w * ?dt < 0 then 0
           else vy (position (vehicleOf e i)) + vy w * ?dt)"
    using fr by (simp add: vehicleOf_setVehicle v4 integrate_fields Let_def groundStop_def
        add3_def multiplyScalar3_def)
  from that [OF cf upd vel pos] show thesis .
qed

lemma updateVehiclePhysics_massless:
  assumes gf: "gridFinDeflection (vehicleOf e i) \<noteq> None"
    and m: "mass (vehicleOf e i) + fuel (vehicleOf e i) \<le> 0"
  shows "\<exists>e'. updateVehiclePhysics e i deltaTime enginesOn = Some e' \<and>
           acceleration (vehicleOf e' i) = acceleration (vehicleOf e i) \<and>
           velocity (vehicleOf e' i) = velocity (vehicleOf e i) \<and>
           position (vehicleOf e' i) = position (vehicleOf e i)"
proof -
  from calculateForces_defined [OF gf]
  obtain forces v1 where cf: "calculateForces e (vehicleOf e i) (min deltaTime 0.1) = Some (forces, v1)"
    by blast
  note fr = calculateForces_vertical [OF cf]
  have "acceleration v1 = acceleration (vehicleOf e i)"
    using cf by (auto simp: calculateForces_def split: option.splits)
  with m cf fr show ?thesis
    by (simp add: updateVehiclePhysics_def Let_def vehicleOf_setVehicle)
qed

lemma dragForce_env: "atmosphericDensity e0 = atmosphericDensity e \<Longrightarrow> dragForce e0 v = dragForce e v"
proof -
  assume "atmosphericDensity e0 = atmosphericDensity e"
  then have "densityFactor e0 v = densityFactor e v"
    by (simp add: densityFactor_def)
  then show ?thesis
    by (simp add: dragForce_def Let_def)
qed

lemma thrustForce_off: "throttle v \<le> 0 \<Longrightarrow> thrustForce v = V3 0 0 0"
  by (simp add: thrustForce_def)

lemma free_fall_step:
  assumes cf: "calculateForces e0 v dt0 = Some (forces, v1)"
    and thr: "throttle v = 0" and drag: "dragForce e0 v = V3 0 0 0"
    and m: "mass v + fuel v \<noteq> 0"
  shows "vy (add3 (velocity v) (multiplyScalar3 (divideForces forces (mass v + fuel v)) dt))
         = vy (velocity v) - gravity e0 * dt"
proof -
  have "vy forces = - (gravity e0 * (mass v + fuel v))"
    using calculateForces_vertical(1) [OF cf] thr drag by (simp add: thrustForce_off)
  then show ?thesis
    using m by (simp add: add3_def multiplyScalar3_def divideForces_def)
qed

lemma free_fall_both:
  assumes ws: "well_formed_vehicle (starship e)" and wb: "well_formed_vehicle (superHeavy e)"
    and act: "active (vehicleOf e i)"
    and thr: "throttle (vehicleOf e i) = 0"
    and drag: "dragForce e (vehicleOf e i) = V3 0 0 0"
  shows "(\<exists>e'. update e deltaTime r lc = Some e' \<and>
            vy (velocity (vehicleOf e' i)) =
              (let dt = min deltaTime 0.1; v = vehicleOf e i; w = vy (velocity v) - gravity e * dt
               in if vy (position v) + w * dt < 0 then 0 else w)) \<and>
         (\<exists>e'. updateVehiclePhysics e i deltaTime enginesOn = Some e' \<and>
            vy (velocity (vehicleOf e' i)) =
              (let dt = min deltaTime 0.1; v = vehicleOf e i; w = vy (velocity v) - gravity e * dt
               in if vy (position v) + w * dt < 0 then 0 else w))"
proof
  have wi: "well_formed_vehicle (vehicleOf e i)"
    using ws wb by (cases i) (simp_all add: vehicleOf_simps)
  then have gf: "gridFinDeflection (vehicleOf e i) \<noteq> None"
    and m: "0 < mass (vehicleOf e i) + fuel (vehicleOf e i)"
    by (simp_all add: well_formed_vehicle_def)
  let ?dt = "min deltaTime 0.1"
  let ?v = "vehicleOf e i"
  show "\<exists>e'. update e deltaTime r lc = Some e' \<and>
            vy (velocity (vehicleOf e' i)) =
              (let dt = min deltaTime 0.1; v = vehicleOf e i; w = vy (velocity v) - gravity e * dt
               in if vy (position v) + w * dt < 0 then 0 else w)"
  proof -
    from update_reduces [OF ws wb, of deltaTime r lc i]
    obtain e0 e1 e' where red: "update e deltaTime r lc = Some e'"
      "update_vehicle e0 i ?dt lc = Some e1" "vehicleOf e' i = vehicleOf e1 i"
      "vehicleOf e0 i = ?v" "gravity e0 = gravity e" "atmosphericDensity e0 = atmosphericDensity e"
      by metis
    have act0: "active (vehicleOf e0 i)" and gf0: "gridFinDeflection (vehicleOf e0 i) \<noteq> None"
      and m0: "mass (vehicleOf e0 i) + fuel (vehicleOf e0 i) \<noteq> 0"
      using act gf m red(4) by simp_all
    from update_vehicle_active [OF act0 gf0 m0, of ?dt lc]
    obtain forces v1 e1' where st: "calculateForces e0 (vehicleOf e0 i) ?dt = Some (forces, v1)"
      "update_vehicle e0 i ?dt lc = Some e1'"
      "velocity (vehicleOf e1' i) =
       (let w = add3 (velocity (vehicleOf e0 i))
                     (multiplyScalar3 (divideForces forces (mass (vehicleOf e0 i) + fuel (vehicleOf e0 i))) ?dt)
        in if vy (position (vehicleOf e0 i)) + vy w * ?dt < 0 then V3 0 0 0 else w)"
      by metis
    have e1: "e1' = e1" using st(2) red(2) by simp
    have ff: "vy (add3 (velocity ?v) (multiplyScalar3 (divideForces forces (mass ?v + fuel ?v)) ?dt))
              = vy (velocity ?v) - gravity e * ?dt"
      using free_fall_step [of e0 ?v ?dt forces v1 ?dt] st(1) thr drag m red(4,5)
        dragForce_env [OF red(6), of ?v] by simp
    have "vy (velocity (vehicleOf e' i)) =
              (let dt = ?dt; v = ?v; w = vy (velocity v) - gravity e * dt
               in if vy (position v) + w * dt < 0 then 0 else w)"
      using st(3) ff by (simp add: red(3,4) e1 Let_def)
    with red(1) show ?thesis by blast
  qed
  show "\<exists>e'. updateVehiclePhysics e i deltaTime enginesOn = Some e' \<and>
            vy (velocity (vehicleOf e' i)) =
              (let dt = min deltaTime 0.1; v = vehicleOf e i; w = vy (velocity v) - gravity e * dt
               in if vy (position v) + w * dt < 0 then 0 else w)"
  proof -
    from updateVehiclePhysics_moving [OF gf m, of deltaTime enginesOn]
    obtain forces v1 e' where st: "calculateForces e ?v ?dt = Some (forces, v1)"
      "updateVehiclePhysics e i deltaTime enginesOn = Some e'"
      "velocity (vehicleOf e' i) =
       (let w = add3 (velocity ?v) (multiplyScalar3 (divideForces forces (mass ?v + fuel ?v)) ?dt)
        in if vy (position ?v) + vy w * ?dt < 0 then V3 0 0 0 else w)"
      by metis
    have ff: "vy (add3 (velocity ?v) (multiplyScalar3 (divideForces forces (mass ?v + fuel ?v)) ?dt))
              = vy (velocity ?v) - gravity e * ?dt"
      using free_fall_step [of e ?v ?dt forces v1 ?dt] st(1) thr drag m by simp
    have "vy (velocity (vehicleOf e' i)) =
              (let dt = ?dt; v = ?v; w = vy (velocity v) - gravity e * dt
               in if vy (position v) + w * dt < 0 then 0 else w)"
      using st(3) ff by (simp add: Let_def)
    with st(2) show ?thesis by blast
  qed
qed

lemma engine_after_reset_simps:
  "gravity engine_after_reset = 9.81" "windSpeed engine_after_reset = 0"
  "atmosphericDensity engine_after_reset = 1.225"
  "landingPhase engine_after_reset = PhaseNone"
  "starship engine_after_reset = reset_vehicle Starship new_starship"
  "superHeavy engine_after_reset = reset_vehicle SuperHeavy new_superHeavy"
  by (simp_all add: engine_after_reset_def reset_def new_ImprovedPhysicsEngine_def)

lemma reset_vehicle_simps:
  "mass (reset_vehicle k v) = mass v" "fuel (reset_vehicle k v) = fuel v"
  "maxThrust (reset_vehicle k v) = maxThrust v"
  "velocity (reset_vehicle k v) = V3 0 0 0" "throttle (reset_vehicle k v) = 0"
  "acceleration (reset_vehicle k v) = V3 0 0 0" "angularVelocity (reset_vehicle k v) = V3 0 0 0"
  "rotation (reset_vehicle k v) = V3 0 0 0"
  "gridFinDeflection (reset_vehicle k v) = Some 0" "active (reset_vehicle k v)"
  "gimbalPosition (reset_vehicle k v) = Some (V2 0 0)"
  "position (reset_vehicle k v) = V3 0 (if k = SuperHeavy then 0.1 else 60.75) 0"
  by (simp_all add: reset_vehicle_def)

lemma booster_at_simps:
  "gravity (booster_at h) = 9.81" "windSpeed (booster_at h) = 0"
  "starship (booster_at h) = reset_vehicle Starship new_starship"
  "superHeavy (booster_at h) = (reset_vehicle SuperHeavy new_superHeavy)\<lparr>position := V3 0 h 0\<rparr>"
  by (simp_all add: booster_at_def engine_after_reset_simps)

lemma new_vehicle_mass:
  "mass new_starship = 120000" "fuel new_starship = 1200000"
  "mass new_superHeavy = 200000" "fuel new_superHeavy = 3400000"
  by (simp_all add: new_starship_def new_superHeavy_def)

lemma dragForce_at_rest: "velocity v = V3 0 0 0 \<Longrightarrow> dragForce e v = V3 0 0 0"
  by (simp add: dragForce_def lengthSq3_def)

lemma booster_at_well_formed:
  "well_formed_vehicle (starship (booster_at h))" "well_formed_vehicle (superHeavy (booster_at h))"
  by (simp_all add: well_formed_vehicle_def booster_at_simps reset_vehicle_simps new_vehicle_mass)

section \<open>Free fall\<close>

lemma update_free_fall:
  assumes ws: "well_formed_vehicle (starship e)" and wb: "well_formed_vehicle (superHeavy e)"
    and act: "active (vehicleOf e i)"
    and thr: "throttle (vehicleOf e i) = 0"
    and drag: "dragForce e (vehicleOf e i) = V3 0 0 0"
  shows "\<exists>e'. update e deltaTime r lc = Some e' \<and>
            vy (velocity (vehicleOf e' i)) =
              (let dt = min deltaTime 0.1; v = vehicleOf e i; w = vy (velocity v) - gravity e * dt
               in if vy (position v) + w * dt < 0 then 0 else w)"
  using free_fall_both [OF assms] by blast

text \<open>
  Claim C8, as stated, fails.  The booster at rest 1000 m up (no drag at zero velocity),
  throttle 0, and one \<open>update\<close> with a time step of 1 s: the step is capped at 0.1 s, and the
  vertical velocity afterwards is -0.981 m/s, not \<open>v0 - g * 1 = -9.81\<close> m/s.
\<close>

theorem free_fall_uncapped_counterexample:
  "throttle (superHeavy (booster_at 1000)) = 0 \<and>
   dragForce (booster_at 1000) (superHeavy (booster_at 1000)) = V3 0 0 0 \<and>
   update (booster_at 1000) 1 calm_draws idle_landing_control \<noteq> None \<and>
   vy (velocity (superHeavy (the (update (booster_at 1000) 1 calm_draws idle_landing_control))))
     = - 0.981 \<and>
   vy (velocity (superHeavy (booster_at 1000))) - gravity (booster_at 1000) * 1 = - 9.81"
proof -
  let ?e = "booster_at 1000"
  have rest: "active (vehicleOf ?e SuperHeavy)" "throttle (vehicleOf ?e SuperHeavy) = 0"
    "dragForce ?e (vehicleOf ?e SuperHeavy) = V3 0 0 0"
    by (simp_all add: vehicleOf_simps booster_at_simps reset_vehicle_simps dragForce_at_rest)
  from update_free_fall [OF booster_at_well_formed rest, of 1 calm_draws idle_landing_control]
  obtain e' where e': "update ?e 1 calm_draws idle_landing_control = Some e'"
    "vy (velocity (vehicleOf e' SuperHeavy)) = - 0.981"
    by (auto simp: vehicleOf_simps booster_at_simps reset_vehicle_simps Let_def)
  from e' rest show ?thesis
    by (simp add: vehicleOf_simps booster_at_simps reset_vehicle_simps)
qed

text \<open>
  Claim C8, amended.  Take an engine whose vehicles are well-formed and an active vehicle with
  throttle 0 on which the drag force is zero.  One \<open>update\<close>, and one
  \<open>updateVehiclePhysics\<close>, with the time step \<open>deltaTime\<close> returns, and the vehicle's
  vertical velocity afterwards is \<open>v0 - g * dt\<close> for the capped step
  \<open>dt = min deltaTime 0.1\<close>, unless that step takes the vehicle below the ground, in which
  case the velocity is zero.
\<close>

theorem free_fall_velocity:
  assumes "well_formed_vehicle (starship e)" and "well_formed_vehicle (superHeavy e)"
    and "active (vehicleOf e i)"
    and "throttle (vehicleOf e i) = 0"
    and "dragForce e (vehicleOf e i) = V3 0 0 0"
  shows "(\<exists>e'. update e deltaTime r lc = Some e' \<and>
            vy (velocity (vehicleOf e' i)) =
              (let dt = min deltaTime 0.1; v = vehicleOf e i; w = vy (velocity v) - gravity e * dt
               in if vy (position v) + w * dt < 0 then 0 else w)) \<and>
         (\<exists>e'. updateVehiclePhysics e i deltaTime enginesOn = Some e' \<and>
            vy (velocity (vehicleOf e' i)) =
              (let dt = min deltaTime 0.1; v = vehicleOf e i; w = vy (velocity v) - gravity e * dt
               in if vy (position v) + w * dt < 0 then 0 else w))"
  using assms by (rule free_fall_both)

theorem free_fall_velocity_witness:
  "well_formed_vehicle (starship (booster_at 1000)) \<and>
   well_formed_vehicle (superHeavy (booster_at 1000)) \<and>
   active (vehicleOf (booster_at 1000) SuperHeavy) \<and>
   throttle (vehicleOf (booster_at 1000) SuperHeavy) = 0 \<and>
   dragForce (booster_at 1000) (vehicleOf (booster_at 1000) SuperHeavy) = V3 0 0 0 \<and>
   (\<exists>e'. update (booster_at 1000) (1 / 20) calm_draws idle_landing_control = Some e' \<and>
         vy (velocity (vehicleOf e' SuperHeavy)) = - 0.4905) \<and>
   (\<exists>e'. updateVehiclePhysics (booster_at 1000) SuperHeavy (1 / 20) False = Some e' \<and>
         vy (velocity (vehicleOf e' SuperHeavy)) = - 0.4905)"
proof -
  let ?e = "booster_at 1000"
  have rest: "active (vehicleOf ?e SuperHeavy)" "throttle (vehicleOf ?e SuperHeavy) = 0"
    "dragForce ?e (vehicleOf ?e SuperHeavy) = V3 0 0 0"
    by (simp_all add: vehicleOf_simps booster_at_simps reset_vehicle_simps dragForce_at_rest)
  from free_fall_velocity [OF booster_at_well_formed rest,
      of "1 / 20" calm_draws idle_landing_control False]
  have "(\<exists>e'. update ?e (1 / 20) calm_draws idle_landing_control = Some e' \<and>
         vy (velocity (vehicleOf e' SuperHeavy)) = - 0.4905) \<and>
        (\<exists>e'. updateVehiclePhysics ?e SuperHeavy (1 / 20) False = Some e' \<and>
         vy (velocity (vehicleOf e' SuperHeavy)) = - 0.4905)"
    by (simp add: vehicleOf_simps booster_at_simps reset_vehicle_simps Let_def)
  with booster_at_well_formed rest show ?thesis by simp
qed

section \<open>Rest on the ground\<close>

lemma forces_at_rest:
  assumes cf: "calculateForces e0 v dt0 = Some (forces, v1)"
    and thr: "throttle v = 0" and vel: "velocity v = V3 0 0 0" and wind: "windSpeed e0 = 0"
  shows "forces = V3 0 (- (gravity e0 * (mass v + fuel v))) 0"
proof -
  have fin: "finForce e0 v = Some f \<Longrightarrow> f = V3 0 0 0" for f
    using vel by (auto simp: finForce_def lengthSq3_def split: option.splits if_splits)
  have w: "windForce e0 v = V3 0 0 0"
    using wind by (simp add: windForce_def)
  from cf fin show ?thesis
    by (auto simp: calculateForces_def thrustForce_off thr dragForce_at_rest vel w
        gravityForce_def add3_def split: option.splits)
qed

lemma rest_step:
  assumes g: "0 \<le> g" and m: "m \<noteq> 0"
    and f: "forces = V3 0 (- (g * m)) 0" and v0: "v0 = V3 0 0 0" and p0: "p0 = 0"
    and vel: "vel = (let w = add3 v0 (multiplyScalar3 (divideForces forces m) dt)
                     in if p0 + vy w * dt < 0 then V3 0 0 0 else w)"
    and py: "py = (let w = add3 v0 (multiplyScalar3 (divideForces forces m) dt)
                   in if p0 + vy w * dt < 0 then 0 else p0 + vy w * dt)"
  shows "vel = V3 0 0 0" and "py = 0"
proof -
  have w: "add3 v0 (multiplyScalar3 (divideForces forces m) dt) = V3 0 (- (g * dt)) 0"
    using m by (simp add: f v0 add3_def multiplyScalar3_def divideForces_def)
  have z: "g * dt = 0" if "\<not> - (g * dt) * dt < 0"
  proof -
    from that have "g * (dt * dt) \<le> 0" by (simp add: mult.assoc)
    moreover have "0 \<le> g * (dt * dt)" using g by simp
    ultimately have "g * (dt * dt) = 0" by simp
    then show ?thesis by auto
  qed
  show "vel = V3 0 0 0"
    using z by (auto simp: vel w p0 Let_def)
  show "py = 0"
    using z by (auto simp: py w p0 Let_def)
qed

lemma rest_stays_both:
  assumes ws: "well_formed_vehicle (starship e)" and wb: "well_formed_vehicle (superHeavy e)"
    and g: "0 \<le> gravity e" and wind: "windSpeed e = 0"
    and alt: "vy (position (vehicleOf e i)) = 0"
    and vel: "velocity (vehicleOf e i) = V3 0 0 0"
    and thr: "throttle (vehicleOf e i) = 0"
  shows "(\<exists>e'. update e deltaTime r lc = Some e' \<and>
            vy (position (vehicleOf e' i)) = 0 \<and> velocity (vehicleOf e' i) = V3 0 0 0) \<and>
         (\<exists>e'. updateVehiclePhysics e i deltaTime enginesOn = Some e' \<and>
            vy (position (vehicleOf e' i)) = 0 \<and> velocity (vehicleOf e' i) = V3 0 0 0)"
proof
  have wi: "well_formed_vehicle (vehicleOf e i)"
    using ws wb by (cases i) (simp_all add: vehicleOf_simps)
  then have gf: "gridFinDeflection (vehicleOf e i) \<noteq> None"
    and m: "0 < mass (vehicleOf e i) + fuel (vehicleOf e i)"
    by (simp_all add: well_formed_vehicle_def)
  let ?dt = "min deltaTime 0.1"
  let ?v = "vehicleOf e i"
  let ?m = "mass ?v + fuel ?v"
  from m have m0: "?m \<noteq> 0" by simp
  show "\<exists>e'. update e deltaTime r lc = Some e' \<and>
            vy (position (vehicleOf e' i)) = 0 \<and> velocity (vehicleOf e' i) = V3 0 0 0"
  proof -
    from update_reduces [OF ws wb, of deltaTime r lc i]
    obtain e0 e1 e' where red: "update e deltaTime r lc = Some e'"
      "update_vehicle e0 i ?dt lc = Some e1" "vehicleOf e' i = vehicleOf e1 i"
      "vehicleOf e0 i = ?v" "gravity e0 = gravity e" "windSpeed e0 = windSpeed e"
      by metis
    show ?thesis
    proof (cases "active ?v")
      case False
      then have "e1 = e0" using red(2,4) by (simp add: update_vehicle_inactive)
      with red alt vel show ?thesis by simp
    next
      case True
      have act0: "active (vehicleOf e0 i)" and gf0: "gridFinDeflection (vehicleOf e0 i) \<noteq> None"
        and m0': "mass (vehicleOf e0 i) + fuel (vehicleOf e0 i) \<noteq> 0"
        using True gf m red(4) by simp_all
      from update_vehicle_active [OF act0 gf0 m0', of ?dt lc]
      obtain forces v1 e1' where st: "calculateForces e0 (vehicleOf e0 i) ?dt = Some (forces, v1)"
        "update_vehicle e0 i ?dt lc = Some e1'"
        "velocity (vehicleOf e1' i) =
         (let w = add3 (velocity (vehicleOf e0 i))
                       (multiplyScalar3 (divideForces forces (mass (vehicleOf e0 i) + fuel (vehicleOf e0 i))) ?dt)
          in if vy (position (vehicleOf e0 i)) + vy w * ?dt < 0 then V3 0 0 0 else w)"
        "vy (position (vehicleOf e1' i)) =
         (let w = add3 (velocity (vehicleOf e0 i))
                       (multiplyScalar3 (divideForces forces (mass (vehicleOf e0 i) + fuel (vehicleOf e0 i))) ?dt)
          in if vy (position (vehicleOf e0 i)) + vy w * ?dt < 0 then 0
             else vy (position (vehicleOf e0 i)) + vy w * ?dt)"
        by metis
      have e1: "e1' = e1" using st(2) red(2) by simp
      have f: "forces = V3 0 (- (gravity e * ?m)) 0"
        using forces_at_rest [OF st(1)] thr vel wind red(4,5,6) by simp
      have "velocity (vehicleOf e1 i) = V3 0 0 0" "vy (position (vehicleOf e1 i)) = 0"
        using rest_step [OF g m0 f vel alt, of "velocity (vehicleOf e1 i)" ?dt
            "vy (position (vehicleOf e1 i))"] st(3,4)
        by (simp_all only: e1 red(4))
      with red(1,3) show ?thesis by simp
    qed
  qed
  show "\<exists>e'. updateVehiclePhysics e i deltaTime enginesOn = Some e' \<and>
            vy (position (vehicleOf e' i)) = 0 \<and> velocity (vehicleOf e' i) = V3 0 0 0"
  proof -
    from updateVehiclePhysics_moving [OF gf m, of deltaTime enginesOn]
    obtain forces v1 e' where st: "calculateForces e ?v ?dt = Some (forces, v1)"
      "updateVehiclePhysics e i deltaTime enginesOn = Some e'"
      "velocity (vehicleOf e' i) =
       (let w = add3 (velocity ?v) (multiplyScalar3 (divideForces forces ?m) ?dt)
        in if vy (position ?v) + vy w * ?dt < 0 then V3 0 0 0 else w)"
      "vy (position (vehicleOf e' i)) =
       (let w = add3 (velocity ?v) (multiplyScalar3 (divideForces forces ?m) ?dt)
        in if vy (position ?v) + vy w * ?dt < 0 then 0 else vy (position ?v) + vy w * ?dt)"
      by metis
    have f: "forces = V3 0 (- (gravity e * ?m)) 0"
      using forces_at_rest [OF st(1)] thr vel wind by simp
    have "velocity (vehicleOf e' i) = V3 0 0 0" "vy (position (vehicleOf e' i)) = 0"
      using rest_step [OF g m0 f vel alt, of "velocity (vehicleOf e' i)" ?dt
          "vy (position (vehicleOf e' i))"] st(3,4)
      by simp_all
    with st(2) show ?thesis by simp
  qed
qed

text \<open>
  Claim C5.  Take an engine whose vehicles are well-formed, with non-negative gravity and no
  wind, and a vehicle at altitude 0 with zero velocity, zero acceleration, zero angular
  velocity and throttle 0.  One \<open>update\<close>, and one \<open>updateVehiclePhysics\<close>, with any time
  step returns and leaves the vehicle at altitude 0 with zero velocity.
\<close>

theorem ground_rest_is_kept:
  assumes "well_formed_vehicle (starship e)" and "well_formed_vehicle (superHeavy e)"
    and "0 \<le> gravity e" and "windSpeed e = 0"
    and "vy (position (vehicleOf e i)) = 0"
    and "velocity (vehicleOf e i) = V3 0 0 0"
    and "acceleration (vehicleOf e i) = V3 0 0 0"
    and "angularVelocity (vehicleOf e i) = V3 0 0 0"
    and "throttle (vehicleOf e i) = 0"
  shows "(\<exists>e'. update e deltaTime r lc = Some e' \<and>
            vy (position (vehicleOf e' i)) = 0 \<and> velocity (vehicleOf e' i) = V3 0 0 0) \<and>
         (\<exists>e'. updateVehiclePhysics e i deltaTime enginesOn = Some e' \<and>
            vy (position (vehicleOf e' i)) = 0 \<and> velocity (vehicleOf e' i) = V3 0 0 0)"
  using assms(1-6,9) by (rule rest_stays_both)

theorem ground_rest_is_kept_witness:
  "well_formed_vehicle (starship (booster_at 0)) \<and>
   well_formed_vehicle (superHeavy (booster_at 0)) \<and>
   0 \<le> gravity (booster_at 0) \<and> windSpeed (booster_at 0) = 0 \<and>
   vy (position (vehicleOf (booster_at 0) SuperHeavy)) = 0 \<and>
   velocity (vehicleOf (booster_at 0) SuperHeavy) = V3 0 0 0 \<and>
   acceleration (vehicleOf (booster_at 0) SuperHeavy) = V3 0 0 0 \<and>
   angularVelocity (vehicleOf (booster_at 0) SuperHeavy) = V3 0 0 0 \<and>
   throttle (vehicleOf (booster_at 0) SuperHeavy) = 0 \<and>
   (\<exists>e'. update (booster_at 0) (1 / 20) calm_draws idle_landing_control = Some e' \<and>
         vy (position (vehicleOf e' SuperHeavy)) = 0 \<and>
         velocity (vehicleOf e' SuperHeavy) = V3 0 0 0) \<and>
   (\<exists>e'. updateVehiclePhysics (booster_at 0) SuperHeavy (1 / 20) False = Some e' \<and>
         vy (position (vehicleOf e' SuperHeavy)) = 0 \<and>
         velocity (vehicleOf e' SuperHeavy) = V3 0 0 0)"
proof -
  let ?e = "booster_at 0"
  have h: "0 \<le> gravity ?e" "windSpeed ?e = 0"
    "vy (position (vehicleOf ?e SuperHeavy)) = 0"
    "velocity (vehicleOf ?e SuperHeavy) = V3 0 0 0"
    "acceleration (vehicleOf ?e SuperHeavy) = V3 0 0 0"
    "angularVelocity (vehicleOf ?e SuperHeavy) = V3 0 0 0"
    "throttle (vehicleOf ?e SuperHeavy) = 0"
    by (simp_all add: vehicleOf_simps booster_at_simps reset_vehicle_simps)
  from ground_rest_is_kept [OF booster_at_well_formed h,
      of "1 / 20" calm_draws idle_landing_control False]
    booster_at_well_formed [of 0] h
  show ?thesis by simp
qed

section \<open>Zero velocity and zero mass\<close>

lemma calculateDrag_at_rest:
  "velocity (vehicleOf e i) = V3 0 0 0 \<Longrightarrow> calculateDrag e i altitude = V3 0 0 0"
  by (simp add: calculateDrag_def length3_def Let_def)

lemma updateVehiclePhysics_defined:
  assumes gf: "gridFinDeflection (vehicleOf e i) \<noteq> None"
  shows "updateVehiclePhysics e i deltaTime enginesOn \<noteq> None"
proof (cases "0 < mass (vehicleOf e i) + fuel (vehicleOf e i)")
  case True
  from updateVehiclePhysics_moving [OF gf True, of deltaTime enginesOn] show ?thesis
    by (metis option.distinct(1))
next
  case False
  then have "mass (vehicleOf e i) + fuel (vehicleOf e i) \<le> 0" by simp
  from updateVehiclePhysics_massless [OF gf this, of deltaTime enginesOn] show ?thesis
    by auto
qed


text \<open>
  What holds at the edge cases.  With a zero velocity vector the drag contribution of
  \<open>calculateForces\<close> is the zero force and \<open>calculateDrag\<close> returns the zero force.  For a
  vehicle whose grid-fin deflection is assigned, \<open>calculateForces\<close> and
  \<open>updateVehiclePhysics\<close> always return (no value outside the reals arises), and when the
  total mass is not positive \<open>updateVehiclePhysics\<close> leaves acceleration, velocity and
  position as they were.
\<close>

lemma updateVehiclePhysics_edge_cases:
  "(velocity v = V3 0 0 0 \<longrightarrow> dragForce e v = V3 0 0 0) \<and>
   (velocity (vehicleOf e i) = V3 0 0 0 \<longrightarrow> calculateDrag e i altitude = V3 0 0 0) \<and>
   (gridFinDeflection v \<noteq> None \<longrightarrow> calculateForces e v dt \<noteq> None) \<and>
   (gridFinDeflection (vehicleOf e i) \<noteq> None \<longrightarrow>
      updateVehiclePhysics e i deltaTime enginesOn \<noteq> None) \<and>
   (gridFinDeflection (vehicleOf e i) \<noteq> None \<and>
    mass (vehicleOf e i) + fuel (vehicleOf e i) \<le> 0 \<longrightarrow>
      (\<exists>e'. updateVehiclePhysics e i deltaTime enginesOn = Some e' \<and>
           acceleration (vehicleOf e' i) = acceleration (vehicleOf e i) \<and>
           velocity (vehicleOf e' i) = velocity (vehicleOf e i) \<and>
           position (vehicleOf e' i) = position (vehicleOf e i)))"
  using dragForce_at_rest [of v e] calculateDrag_at_rest [of e i altitude]
    calculateForces_defined [of v e dt] updateVehiclePhysics_defined [of e i deltaTime enginesOn]
    updateVehiclePhysics_massless [of e i deltaTime enginesOn]
  by auto




section \<open>The catch update of the physics engine\<close>

lemma V3_update [simp]:
  "(V3 a b c)\<lparr>vx := d\<rparr> = V3 d b c" "(V3 a b c)\<lparr>vy := d\<rparr> = V3 a d c" "(V3 a b c)\<lparr>vz := d\<rparr> = V3 a b d"
  by (simp_all add: V3_def)

lemma V3_eq [simp]: "V3 a b c = V3 a' b' c' \<longleftrightarrow> a = a' \<and> b = b' \<and> c = c'"
  by (simp add: V3_def)

lemma length3_axis: "length3 (V3 0 y 0) = \<bar>y\<bar>"
  by (simp add: length3_def)

lemma vec_ops:
  "add3 (V3 a b c) (V3 a' b' c') = V3 (a + a') (b + b') (c + c')"
  "sub3 (V3 a b c) (V3 a' b' c') = V3 (a - a') (b - b') (c - c')"
  "multiplyScalar3 (V3 a b c) s = V3 (a * s) (b * s) (c * s)"
  "lerp3 (V3 a b c) (V3 a' b' c') t = V3 (a + (a' - a) * t) (b + (b' - b) * t) (c + (c' - c) * t)"
  "lengthSq3 (V3 a b c) = a * a + b * b + c * c"
  by (simp_all add: add3_def sub3_def multiplyScalar3_def lerp3_def lengthSq3_def)

lemma normalize3_axis: "y \<noteq> 0 \<Longrightarrow> normalize3 (V3 0 y 0) = V3 0 (y / \<bar>y\<bar>) 0"
  by (simp add: normalize3_def length3_axis divideScalar3_def vec_ops)

lemma setFromEuler_zero': "setFromEuler (V3 0 0 0) = \<lparr>qx = 0, qy = 0, qz = 0, qw = 1\<rparr>"
  by (simp add: setFromEuler_def)

lemma applyQuaternion_identity': "applyQuaternion (V3 a b c) \<lparr>qx = 0, qy = 0, qz = 0, qw = 1\<rparr> = V3 a b c"
  by (simp add: applyQuaternion_def)

lemma thrust_upright:
  "throttle v > 0 \<Longrightarrow> rotation v = V3 0 0 0 \<Longrightarrow> gimbalPosition v = Some (V2 0 0) \<Longrightarrow>
   thrustForce v = V3 0 (maxThrust v * throttle v) 0"
  by (simp add: thrustForce_def gimbalOrZero_def V2_def setFromEuler_zero' applyQuaternion_identity'
      normalize3_axis vec_ops Let_def)

lemma wind_calm: "windSpeed e = 0 \<Longrightarrow> windForce e v = V3 0 0 0"
  by (simp add: windForce_def)

lemma fin_neutral: "gridFinDeflection v = Some 0 \<Longrightarrow> finForce e v = Some (V3 0 0 0) \<and> finTorque e v dt = 0"
  by (simp add: finForce_def finTorque_def)

lemma catch_example_step:
  "\<exists>e2. updateVehiclePhysics
            (engine_after_reset
             \<lparr>superHeavy :=
                reset_vehicle SuperHeavy new_superHeavy
                \<lparr>position := V3 (- 120) 90 0, fuel := 0,
                   acceleration := V3 0 (61 / 50) 0, throttle := 7 / 50\<rparr>\<rparr>)
            SuperHeavy (1 / 10) True = Some e2 \<and>
        position (superHeavy e2) = V3 (- 120) (904059 / 10000) 0 \<and>
        rotation (superHeavy e2) = V3 0 0 0"
  by (simp add: updateVehiclePhysics_def vehicleOf_simps calculateForces_def fin_neutral
      reset_vehicle_simps thrust_upright dragForce_at_rest wind_calm engine_after_reset_simps
      gravityForce_def new_vehicle_mass vec_ops integrate_def divideForces_def burnFuel_def
      setVehicle_def gimbalOrZero_def groundStop_def Let_def new_superHeavy_def)

text \<open>
  Claim C10, as stated, fails.  The booster at rest 10 m below the catch point, its propellant
  used up: the distance at the start of the step is 10 m, so \<open>catchComplete\<close> is false; the
  step lifts the booster to 90.4059 m, so at the end of the step the distance is below 10 m.
\<close>

theorem catch_complete_uses_stale_distance_counterexample:
  "updateMechazillaCatch booster_below_catch_point (1 / 10) \<noteq> None \<and>
   \<not> catchComplete (snd (the (updateMechazillaCatch booster_below_catch_point (1 / 10)))) \<and>
   distanceTo (position (superHeavy (fst (the (updateMechazillaCatch booster_below_catch_point (1 / 10))))))
     catchPosition < 10"
proof -
  from catch_example_step obtain e2 where e2: "updateVehiclePhysics
            (engine_after_reset
             \<lparr>superHeavy :=
                reset_vehicle SuperHeavy new_superHeavy
                \<lparr>position := V3 (- 120) 90 0, fuel := 0,
                   acceleration := V3 0 (61 / 50) 0, throttle := 7 / 50\<rparr>\<rparr>)
            SuperHeavy (1 / 10) True = Some e2"
    "position (superHeavy e2) = V3 (- 120) (904059 / 10000) 0"
    "rotation (superHeavy e2) = V3 0 0 0"
    by blast
  have "updateMechazillaCatch booster_below_catch_point (1 / 10) =
        Some (e2\<lparr>superHeavy := (superHeavy e2)\<lparr>rotation := V3 0 0 0\<rparr>\<rparr>,
              \<lparr>distanceToCatch = 10, catchComplete = False,
               engineThrottle = throttle (superHeavy e2)\<rparr>)"
    by (simp add: updateMechazillaCatch_def booster_below_catch_point_def catchPosition_def
        engine_after_reset_simps reset_vehicle_simps distanceTo_def vec_ops length3_axis
        normalize3_axis Let_def e2)
  then show ?thesis
    by (simp add: distanceTo_def catchPosition_def e2 vec_ops length3_axis)
qed


lemma updateMechazillaCatch_report:
  assumes "gridFinDeflection (superHeavy e) \<noteq> None"
  shows "\<exists>e' rep. updateMechazillaCatch e deltaTime = Some (e', rep) \<and>
           catchComplete rep = (distanceTo (position (superHeavy e)) catchPosition < 10)"
proof -
  have ne: "updateVehiclePhysics (e\<lparr>superHeavy := (superHeavy e)\<lparr>acceleration := a, throttle := t\<rparr>\<rparr>)
              SuperHeavy deltaTime True \<noteq> None" for a t
    using assms by (intro updateVehiclePhysics_defined) (simp add: vehicleOf_simps)
  show ?thesis
    using ne
    by (simp add: updateMechazillaCatch_def Let_def split: option.split split del: if_split)
qed

text \<open>
  Claim C10, amended.  Whenever the booster's grid-fin deflection is assigned,
  \<open>updateMechazillaCatch\<close> returns, and it reports \<open>catchComplete = true\<close> if and only if the
  booster's distance to the catch point (-120, 100, 0) was below 10 m at the start of the
  step, before the physics update moved the booster.  The booster's velocity and attitude play
  no part.
\<close>

theorem catch_complete_by_start_distance:
  assumes "gridFinDeflection (superHeavy e) \<noteq> None"
  shows "\<exists>e' rep. updateMechazillaCatch e deltaTime = Some (e', rep) \<and>
           catchComplete rep = (distanceTo (position (superHeavy e)) catchPosition < 10)"
  using assms by (rule updateMechazillaCatch_report)

theorem catch_complete_by_start_distance_witness:
  "gridFinDeflection (superHeavy booster_below_catch_point) \<noteq> None \<and>
   (\<exists>e' rep. updateMechazillaCatch booster_below_catch_point (1 / 10) = Some (e', rep) \<and>
            catchComplete rep = False)"
proof -
  have gf: "gridFinDeflection (superHeavy booster_below_catch_point) \<noteq> None"
    by (simp add: booster_below_catch_point_def engine_after_reset_simps reset_vehicle_simps)
  have d: "distanceTo (position (superHeavy booster_below_catch_point)) catchPosition = 10"
    by (simp add: booster_below_catch_point_def distanceTo_def catchPosition_def vec_ops
        length3_axis)
  from catch_complete_by_start_distance [OF gf, of "1 / 10"] gf d show ?thesis
    by simp
qed

section \<open>The outcome of the tower catch\<close>












section \<open>Density and pressure against altitude\<close>





lemma exp_1_ge_2: "2 \<le> exp (1::real)"
  using exp_ge_add_one_self [of "1::real"] by simp

lemma exp_minus_bounds_50000:
  "exp (- (125 / 21) :: real) \<le> 21 / 146" "1 / 729 \<le> exp (- (125 / 21) :: real)"
proof -
  have "1 + 125 / 21 \<le> exp (125 / 21 :: real)"
    by (rule exp_ge_add_one_self)
  then have "146 / 21 \<le> exp (125 / 21 :: real)" by simp
  then have "1 / exp (125 / 21 :: real) \<le> 1 / (146 / 21)"
    by (intro divide_left_mono) simp_all
  then show "exp (- (125 / 21) :: real) \<le> 21 / 146"
    by (simp add: exp_minus inverse_eq_divide)
  have "exp (125 / 21 :: real) \<le> exp 6" by simp
  also have "exp (6 :: real) = exp 1 ^ 6"
    using exp_of_nat_mult [of 6 "1::real"] by simp
  also have "\<dots> \<le> 3 ^ 6"
    by (intro power_mono exp_le) simp
  finally have "exp (125 / 21 :: real) \<le> 729" by simp
  then have "1 / 729 \<le> 1 / exp (125 / 21 :: real)"
    by (intro divide_left_mono) simp_all
  then show "1 / 729 \<le> exp (- (125 / 21) :: real)"
    by (simp add: exp_minus inverse_eq_divide)
qed

lemma atmosphere_at_50000:
  "updateAtmosphericConditions 50000 50000 =
     \<lparr>temperature = 180, pressure = 101325 * exp (- (125 / 21)),
      density = 101325 * exp (- (125 / 21)) / (287.05 * 180)\<rparr>"
proof -
  have "(1 / 1000 :: real) \<le> 101325 * exp (- (125 / 21))"
    using exp_minus_bounds_50000(2) by simp
  then have "max (1 / 1000) (101325 * exp (- (125 / 21) :: real)) = 101325 * exp (- (125 / 21))"
    by simp
  then show ?thesis
    by (simp add: updateAtmosphericConditions_def SEA_LEVEL_TEMP_def LAPSE_RATE_def
        STANDARD_ATMOSPHERE_def GAS_CONSTANT_AIR_def SCALE_HEIGHT_def)
qed





lemma exp_1_ge: "5 / 2 \<le> exp (1::real)"
  using exp_lower_Taylor_quadratic [of "1::real"] by simp

lemma exp_ge_power: "(5 / 2) ^ n \<le> exp (real n)"
proof -
  have "(5 / 2 :: real) ^ n \<le> exp 1 ^ n"
    by (intro power_mono exp_1_ge) simp
  also have "\<dots> = exp (real n)"
    using exp_of_nat_mult [of n "1::real"] by simp
  finally show ?thesis .
qed







text \<open>
  Between 49999 m and 50000 m, where the layered model changes from its stratosphere formula
  to its upper-atmosphere formula, the computed pressure rises.
\<close>

lemma layer_boundary_pressure_rises:
  "pressure (updateAtmosphericConditions 49999 49999)
   < pressure (updateAtmosphericConditions 50000 50000)"
proof -
  have "(5 / 2 :: real) ^ 6 \<le> exp (real 6)"
    by (rule exp_ge_power)
  also have "\<dots> \<le> exp (61501423 / 10000000)"
    by simp
  finally have big: "(5 / 2 :: real) ^ 6 \<le> exp (61501423 / 10000000)" .
  have "exp (- (61501423 / 10000000)) * (5 / 2) ^ 6
        \<le> exp (- (61501423 / 10000000)) * exp (61501423 / 10000000 :: real)"
    using big by (intro mult_left_mono) simp_all
  also have "\<dots> = 1"
    by (simp flip: exp_add)
  finally have "22632 * exp (- (61501423 / 10000000) :: real) < 101325 / 729"
    by (simp add: power_divide)
  also have "\<dots> \<le> 101325 * exp (- (125 / 21) :: real)"
    using exp_minus_bounds_50000(2) by simp
  finally show ?thesis
    by (simp add: atmosphere_at_50000)
      (simp add: updateAtmosphericConditions_def)
qed




section \<open>Commands outside their phase\<close>

lemma commands_act_in_phase:
  "currentPhase s = READY \<Longrightarrow> currentPhase (startLaunch s) = LAUNCH"
  "currentPhase s = ASCENT \<Longrightarrow> currentPhase (triggerStageSeparation s) = STAGE_SEPARATION"
  "currentPhase s = BOOSTER_RETURN \<Longrightarrow> currentPhase (startLandingSequence s) = BOOSTER_LANDING"
  "currentPhase s = BOOSTER_LANDING \<Longrightarrow> currentPhase (startMechazillaCatch s draws) = MECHAZILLA_CATCH"
  by (simp_all add: startLaunch_def triggerStageSeparation_def startLandingSequence_def
      startMechazillaCatch_def Let_def)

text \<open>
  Claim C2.  Each of the four commands, invoked in a phase other than its predecessor phase,
  returns the whole program state unchanged: \<open>startLaunch\<close> outside Ready,
  \<open>triggerStageSeparation\<close> outside Ascent, \<open>startLandingSequence\<close> outside BoosterReturn,
  \<open>startMechazillaCatch\<close> outside BoosterLanding.
\<close>

theorem commands_rejected_outside_their_phase:
  "(currentPhase s \<noteq> READY \<longrightarrow> startLaunch s = s) \<and>
   (currentPhase s \<noteq> ASCENT \<longrightarrow> triggerStageSeparation s = s) \<and>
   (currentPhase s \<noteq> BOOSTER_RETURN \<longrightarrow> startLandingSequence s = s) \<and>
   (currentPhase s \<noteq> BOOSTER_LANDING \<longrightarrow> startMechazillaCatch s draws = s)"
  by (simp add: startLaunch_def triggerStageSeparation_def startLandingSequence_def
      startMechazillaCatch_def)

theorem commands_rejected_outside_their_phase_witness:
  "currentPhase simulator_ready = READY \<and>
   triggerStageSeparation simulator_ready = simulator_ready \<and>
   startLandingSequence simulator_ready = simulator_ready \<and>
   startMechazillaCatch simulator_ready (V3 0.5 0.5 0.5) = simulator_ready \<and>
   currentPhase (startLaunch simulator_ready) = LAUNCH \<and>
   startLaunch (startLaunch simulator_ready) = startLaunch simulator_ready"
  using commands_rejected_outside_their_phase [of simulator_ready "V3 0.5 0.5 0.5"]
    commands_rejected_outside_their_phase [of "startLaunch simulator_ready" "V3 0.5 0.5 0.5"]
    commands_act_in_phase(1) [of simulator_ready]
  by (simp add: simulator_ready_def)

section \<open>What \<open>reset()\<close> leaves behind\<close>

lemma reset_leaves:
  "fuel (starship (reset e)) = fuel (starship e)"
  "fuel (superHeavy (reset e)) = fuel (superHeavy e)"
  "returnParams (reset e) = returnParams e"
  "landingParams (reset e) = landingParams e"
  "landingTarget (reset e) = landingTarget e"
  "windDirection (reset e) = windDirection e"
  by (simp_all add: reset_def reset_vehicle_def)

text \<open>
  Claim C7 against the code.  After a flight, \<open>reset()\<close> leaves the booster's propellant at 0
  (the initial value is 3400000 kg), and it leaves the booster-return parameters, the landing
  timers and the landing target of the flight in place (initially: none, zero, the origin).
\<close>

theorem reset_keeps_state_of_previous_run:
  "fuel (superHeavy (reset engine_after_flight)) = 0 \<and>
   fuel (superHeavy engine_after_reset) = 3400000 \<and>
   returnParams (reset engine_after_flight) =
     Some \<lparr>startTime = 30, coastDuration = 10, turnDuration = 5, burnDuration = 15,
           phase = ReturnCoast\<rparr> \<and>
   returnParams engine_after_reset = None \<and>
   landingParams (reset engine_after_flight) = \<lparr>phaseStartTime = 42, currentPhaseTime = 7\<rparr> \<and>
   landingParams engine_after_reset = \<lparr>phaseStartTime = 0, currentPhaseTime = 0\<rparr> \<and>
   landingTarget (reset engine_after_flight) = Some (V3 (- 120) 0 0) \<and>
   landingTarget engine_after_reset = Some (V3 0 0 0)"
  by (simp add: reset_leaves)
    (simp add: engine_after_flight_def initializeBoosterReturn_def engine_after_reset_def
      reset_def reset_vehicle_def new_ImprovedPhysicsEngine_def new_superHeavy_def)

end
